theory Spec2Isabelle
  imports
    Main
    "HOL-Library.Word"
    "HOL-Library.Char_ord"
    "HOL-Library.List_Lexorder"
begin

section \<open>The file service of noture: storage, quota and versions\<close>

text \<open>
  The development embeds \<^verbatim>\<open>internal/services/file_service.go\<close> together with the
  SQL statements and the schema it runs against. A Go struct is a record, an \<^verbatim>\<open>error\<close>
  is a value of a datatype, a table is the list of its rows, and every service method
  takes the database and returns it updated. Calls to the logger change no state and
  are left out.
\<close>

subsection \<open>Basic types\<close>

text \<open>
  \<^verbatim>\<open>uuid.UUID\<close> is a number, \<^verbatim>\<open>uuid.Nil\<close> is 0. \<^verbatim>\<open>[]byte\<close> and \<^verbatim>\<open>string\<close> are lists of
  bytes. \<^verbatim>\<open>int64\<close> is a 64-bit word read in two's complement, so that \<open>+\<close> and \<open>-\<close> wrap
  as Go's do. \<^verbatim>\<open>time.Time\<close> is an instant counted from the zero time.
\<close>

type_synonym uuid = nat
type_synonym bytes = "char list"
type_synonym int64 = "64 word"
type_synonym int32 = "32 word"
type_synonym time = nat

text \<open>The nullable column types of \<^verbatim>\<open>pgtype\<close>: \<open>None\<close> is \<^verbatim>\<open>Valid: false\<close> (SQL NULL).\<close>

type_synonym pg_uuid = "uuid option"
type_synonym pg_int8 = "int64 option"
type_synonym pg_int4 = "int32 option"
type_synonym pg_text = "string option"
type_synonym pg_timestamptz = "time option"

subsection \<open>Package pgconv\<close>

text \<open>
  The converters of package \<^verbatim>\<open>pgconv\<close> between Go values and nullable column values,
  embedded from the package's code (in the sources it is the part of
  \<^verbatim>\<open>pkg/oauth/google.go\<close> that begins with \<^verbatim>\<open>package pgconv\<close>). Each \<^verbatim>\<open>...ToPg\<close>
  returns the value with \<^verbatim>\<open>Valid: true\<close>; each \<^verbatim>\<open>PgTo...\<close> returns the zero value of
  its type (\<^verbatim>\<open>uuid.Nil\<close>, \<^verbatim>\<open>time.Time{}\<close>, the empty string, 0) when the column value
  is not valid and the value it holds otherwise; \<^verbatim>\<open>StringPtrToPg\<close> maps \<^verbatim>\<open>nil\<close> to
  \<^verbatim>\<open>Valid: false\<close> and a pointer to the valid value it points to. Here \<^verbatim>\<open>uuid.Nil\<close> and
  the zero time are both 0.
\<close>

definition UUIDToPg :: "uuid \<Rightarrow> pg_uuid" where
  "UUIDToPg u = Some u"

definition PgToUUID :: "pg_uuid \<Rightarrow> uuid" where
  "PgToUUID p = (case p of None \<Rightarrow> 0 | Some u \<Rightarrow> u)"

definition TimeToPg :: "time \<Rightarrow> pg_timestamptz" where
  "TimeToPg t = Some t"

definition PgToTime :: "pg_timestamptz \<Rightarrow> time" where
  "PgToTime p = (case p of None \<Rightarrow> 0 | Some t \<Rightarrow> t)"

definition StringToPg :: "string \<Rightarrow> pg_text" where
  "StringToPg s = Some s"

definition PgToString :: "pg_text \<Rightarrow> string" where
  "PgToString p = (case p of None \<Rightarrow> [] | Some s \<Rightarrow> s)"

definition StringPtrToPg :: "string option \<Rightarrow> pg_text" where
  "StringPtrToPg p = p"

definition Int64ToPg :: "int64 \<Rightarrow> pg_int8" where
  "Int64ToPg i = Some i"

definition PgToInt64 :: "pg_int8 \<Rightarrow> int64" where
  "PgToInt64 p = (case p of None \<Rightarrow> 0 | Some i \<Rightarrow> i)"

subsection \<open>Rows of the schema\<close>

text \<open>
  One record per table of \<^verbatim>\<open>migrations/001_initial_schema.sql\<close> that the file service
  reads or writes, with the field names of the generated Go structs behind a prefix
  (\<open>w_\<close> workspaces, \<open>f_\<close> files, \<open>fv_\<close> file_versions, \<open>so_\<close> sync_operations).
\<close>

record Workspace =
  w_ID :: pg_uuid
  w_UserID :: pg_uuid
  w_Name :: string
  w_StorageLimitBytes :: int64
  w_StorageUsedBytes :: pg_int8
  w_CreatedAt :: pg_timestamptz
  w_UpdatedAt :: pg_timestamptz

record File =
  f_ID :: pg_uuid
  f_WorkspaceID :: pg_uuid
  f_FilePath :: string
  f_ContentHash :: string
  f_Content :: bytes
  f_SizeBytes :: int64
  f_MimeType :: pg_text
  f_LastModified :: pg_timestamptz
  f_CreatedAt :: pg_timestamptz
  f_UpdatedAt :: pg_timestamptz

record FileVersion =
  fv_ID :: pg_uuid
  fv_FileID :: pg_uuid
  fv_VersionNumber :: int32
  fv_ContentHash :: string
  fv_Content :: bytes
  fv_CreatedAt :: pg_timestamptz

record SyncOperation =
  so_ID :: pg_uuid
  so_WorkspaceID :: pg_uuid
  so_FileID :: pg_uuid
  so_OperationType :: string
  so_ClientID :: pg_text
  so_Status :: string
  so_ErrorMessage :: pg_text
  so_CreatedAt :: pg_timestamptz

text \<open>
  The database: the four tables, the source of \<^verbatim>\<open>gen_random_uuid()\<close> (a counter, so that
  a drawn key is new), the clock behind \<^verbatim>\<open>NOW()\<close>, and the number of transaction blocks
  the connection has opened so far.
\<close>

record database =
  db_workspaces :: "Workspace list"
  db_files :: "File list"
  db_file_versions :: "FileVersion list"
  db_sync_operations :: "SyncOperation list"
  db_next_uuid :: uuid
  db_now :: time
  db_tx_begun :: nat

datatype db_error =
    ErrNoRows
  | ForeignKeyViolation
  | UniqueViolation
  | InFailedSqlTransaction
  | ErrTxCommitRollback

subsection \<open>The statements of the query file\<close>

text \<open>
  A statement fails only where the schema makes it fail: a \<^verbatim>\<open>:one\<close> query that finds
  no row, a foreign key without its row, a broken uniqueness constraint. Faults of the
  connection itself are outside the model. Every key parameter below comes from
  \<open>UUIDToPg\<close>, so it is never NULL and SQL's \<open>=\<close> on it is plain equality.
\<close>

definition GetWorkspaceByID :: "database \<Rightarrow> pg_uuid \<Rightarrow> db_error + Workspace" where
  "GetWorkspaceByID db wid =
     (case find (\<lambda>w. w_ID w = wid) (db_workspaces db) of
        None \<Rightarrow> Inl ErrNoRows
      | Some w \<Rightarrow> Inr w)"

definition workspace_files :: "database \<Rightarrow> pg_uuid \<Rightarrow> File list" where
  "workspace_files db wid = filter (\<lambda>f. f_WorkspaceID f = wid) (db_files db)"

definition actual_storage_used :: "database \<Rightarrow> pg_uuid \<Rightarrow> int" where
  "actual_storage_used db wid = (\<Sum>f\<leftarrow>workspace_files db wid. sint (f_SizeBytes f))"

record GetWorkspaceStorageUsageRow =
  su_StorageLimitBytes :: int64
  su_StorageUsedBytes :: pg_int8
  su_FileCount :: int64
  su_ActualStorageUsed :: int

definition GetWorkspaceStorageUsage ::
  "database \<Rightarrow> pg_uuid \<Rightarrow> db_error + GetWorkspaceStorageUsageRow" where
  "GetWorkspaceStorageUsage db wid =
     (case find (\<lambda>w. w_ID w = wid) (db_workspaces db) of
        None \<Rightarrow> Inl ErrNoRows
      | Some w \<Rightarrow> Inr \<lparr>su_StorageLimitBytes = w_StorageLimitBytes w,
                       su_StorageUsedBytes = w_StorageUsedBytes w,
                       su_FileCount = of_nat (length (workspace_files db wid)),
                       su_ActualStorageUsed = actual_storage_used db wid\<rparr>)"

record GetFileParams =
  gf_WorkspaceID :: pg_uuid
  gf_FilePath :: string

definition same_path :: "pg_uuid \<Rightarrow> string \<Rightarrow> File \<Rightarrow> bool" where
  "same_path wid p f \<longleftrightarrow> f_WorkspaceID f = wid \<and> f_FilePath f = p"

definition GetFile_query :: "database \<Rightarrow> GetFileParams \<Rightarrow> db_error + File" where
  "GetFile_query db arg =
     (case find (same_path (gf_WorkspaceID arg) (gf_FilePath arg)) (db_files db) of
        None \<Rightarrow> Inl ErrNoRows
      | Some f \<Rightarrow> Inr f)"

record UpsertFileParams =
  uf_WorkspaceID :: pg_uuid
  uf_FilePath :: string
  uf_ContentHash :: string
  uf_Content :: bytes
  uf_SizeBytes :: int64
  uf_MimeType :: pg_text
  uf_LastModified :: pg_timestamptz

definition excluded_row :: "database \<Rightarrow> UpsertFileParams \<Rightarrow> File \<Rightarrow> File" where
  "excluded_row db arg f =
     f\<lparr>f_ContentHash := uf_ContentHash arg,
       f_Content := uf_Content arg,
       f_SizeBytes := uf_SizeBytes arg,
       f_MimeType := uf_MimeType arg,
       f_LastModified := uf_LastModified arg,
       f_UpdatedAt := Some (db_now db)\<rparr>"

definition inserted_row :: "database \<Rightarrow> UpsertFileParams \<Rightarrow> File" where
  "inserted_row db arg =
     \<lparr>f_ID = Some (db_next_uuid db),
      f_WorkspaceID = uf_WorkspaceID arg,
      f_FilePath = uf_FilePath arg,
      f_ContentHash = uf_ContentHash arg,
      f_Content = uf_Content arg,
      f_SizeBytes = uf_SizeBytes arg,
      f_MimeType = uf_MimeType arg,
      f_LastModified = uf_LastModified arg,
      f_CreatedAt = Some (db_now db),
      f_UpdatedAt = Some (db_now db)\<rparr>"

text \<open>
  \<^verbatim>\<open>INSERT ... ON CONFLICT (workspace_id, file_path) DO UPDATE ... RETURNING *\<close>: the row
  at that path keeps its id and takes the new content; without one a row is added.
\<close>

definition UpsertFile :: "database \<Rightarrow> UpsertFileParams \<Rightarrow> db_error + File \<times> database" where
  "UpsertFile db arg =
     (if \<not> (\<exists>w \<in> set (db_workspaces db). w_ID w = uf_WorkspaceID arg) then Inl ForeignKeyViolation
      else case find (same_path (uf_WorkspaceID arg) (uf_FilePath arg)) (db_files db) of
        Some old \<Rightarrow>
          Inr (excluded_row db arg old,
               db\<lparr>db_files :=
                    map (\<lambda>f. if same_path (uf_WorkspaceID arg) (uf_FilePath arg) f
                              then excluded_row db arg f else f) (db_files db)\<rparr>)
      | None \<Rightarrow>
          Inr (inserted_row db arg,
               db\<lparr>db_files := db_files db @ [inserted_row db arg],
                  db_next_uuid := Suc (db_next_uuid db)\<rparr>))"

record UpdateWorkspaceStorageUsedParams =
  uw_ID :: pg_uuid
  uw_StorageUsedBytes :: pg_int8

definition UpdateWorkspaceStorageUsed ::
  "database \<Rightarrow> UpdateWorkspaceStorageUsedParams \<Rightarrow> db_error + unit \<times> database" where
  "UpdateWorkspaceStorageUsed db arg =
     Inr ((), db\<lparr>db_workspaces :=
                  map (\<lambda>w. if w_ID w = uw_ID arg
                            then w\<lparr>w_StorageUsedBytes := uw_StorageUsedBytes arg,
                                   w_UpdatedAt := Some (db_now db)\<rparr>
                            else w) (db_workspaces db)\<rparr>)"

record CreateFileVersionParams =
  cv_FileID :: pg_uuid
  cv_VersionNumber :: int32
  cv_ContentHash :: string
  cv_Content :: bytes

text \<open>\<^verbatim>\<open>file_versions\<close> has \<^verbatim>\<open>UNIQUE(file_id, version_number)\<close> and references \<^verbatim>\<open>files(id)\<close>.\<close>

definition CreateFileVersion ::
  "database \<Rightarrow> CreateFileVersionParams \<Rightarrow> db_error + unit \<times> database" where
  "CreateFileVersion db arg =
     (if \<not> (\<exists>f \<in> set (db_files db). f_ID f = cv_FileID arg) then Inl ForeignKeyViolation
      else if \<exists>v \<in> set (db_file_versions db).
                fv_FileID v = cv_FileID arg \<and> fv_VersionNumber v = cv_VersionNumber arg
      then Inl UniqueViolation
      else Inr ((), db\<lparr>db_file_versions := db_file_versions db @
                          [\<lparr>fv_ID = Some (db_next_uuid db),
                            fv_FileID = cv_FileID arg,
                            fv_VersionNumber = cv_VersionNumber arg,
                            fv_ContentHash = cv_ContentHash arg,
                            fv_Content = cv_Content arg,
                            fv_CreatedAt = Some (db_now db)\<rparr>],
                        db_next_uuid := Suc (db_next_uuid db)\<rparr>))"

record CreateSyncOperationParams =
  cs_WorkspaceID :: pg_uuid
  cs_FileID :: pg_uuid
  cs_OperationType :: string
  cs_ClientID :: pg_text
  cs_Status :: string

definition CreateSyncOperation ::
  "database \<Rightarrow> CreateSyncOperationParams \<Rightarrow> db_error + SyncOperation \<times> database" where
  "CreateSyncOperation db arg =
     (if \<not> (\<exists>w \<in> set (db_workspaces db). w_ID w = cs_WorkspaceID arg) then Inl ForeignKeyViolation
      else if cs_FileID arg \<noteq> None \<and> \<not> (\<exists>f \<in> set (db_files db). f_ID f = cs_FileID arg)
      then Inl ForeignKeyViolation
      else let row = \<lparr>so_ID = Some (db_next_uuid db),
                       so_WorkspaceID = cs_WorkspaceID arg,
                       so_FileID = cs_FileID arg,
                       so_OperationType = cs_OperationType arg,
                       so_ClientID = cs_ClientID arg,
                       so_Status = cs_Status arg,
                       so_ErrorMessage = None,
                       so_CreatedAt = Some (db_now db)\<rparr>
           in Inr (row, db\<lparr>db_sync_operations := db_sync_operations db @ [row],
                           db_next_uuid := Suc (db_next_uuid db)\<rparr>))"

record UpdateSyncOperationStatusParams =
  us_ID :: pg_uuid
  us_Status :: string
  us_ErrorMessage :: pg_text

definition UpdateSyncOperationStatus ::
  "database \<Rightarrow> UpdateSyncOperationStatusParams \<Rightarrow> db_error + unit \<times> database" where
  "UpdateSyncOperationStatus db arg =
     Inr ((), db\<lparr>db_sync_operations :=
                  map (\<lambda>r. if so_ID r = us_ID arg
                            then r\<lparr>so_Status := us_Status arg,
                                   so_ErrorMessage := us_ErrorMessage arg\<rparr>
                            else r) (db_sync_operations db)\<rparr>)"

record DeleteFileParams =
  df_WorkspaceID :: pg_uuid
  df_FilePath :: string

text \<open>
  \<^verbatim>\<open>DELETE FROM files\<close> takes the versions of the deleted rows with it
  (\<^verbatim>\<open>ON DELETE CASCADE\<close>) and clears the file reference of their audit rows
  (\<^verbatim>\<open>ON DELETE SET NULL\<close>).
\<close>

definition DeleteFile_query :: "database \<Rightarrow> DeleteFileParams \<Rightarrow> db_error + unit \<times> database" where
  "DeleteFile_query db arg =
     (let gone = filter (same_path (df_WorkspaceID arg) (df_FilePath arg)) (db_files db);
          ids = set (map f_ID gone)
      in Inr ((), db\<lparr>db_files :=
                       filter (\<lambda>f. \<not> same_path (df_WorkspaceID arg) (df_FilePath arg) f) (db_files db),
                     db_file_versions :=
                       filter (\<lambda>v. fv_FileID v \<notin> ids) (db_file_versions db),
                     db_sync_operations :=
                       map (\<lambda>r. if so_FileID r \<in> ids then r\<lparr>so_FileID := None\<rparr> else r)
                         (db_sync_operations db)\<rparr>))"

record ListFilesRow =
  lf_ID :: pg_uuid
  lf_WorkspaceID :: pg_uuid
  lf_FilePath :: string
  lf_ContentHash :: string
  lf_SizeBytes :: int64
  lf_MimeType :: pg_text
  lf_LastModified :: pg_timestamptz
  lf_UpdatedAt :: pg_timestamptz

definition ListFiles_query :: "database \<Rightarrow> pg_uuid \<Rightarrow> db_error + ListFilesRow list" where
  "ListFiles_query db wid =
     Inr (map (\<lambda>f. \<lparr>lf_ID = f_ID f, lf_WorkspaceID = f_WorkspaceID f, lf_FilePath = f_FilePath f,
                     lf_ContentHash = f_ContentHash f, lf_SizeBytes = f_SizeBytes f,
                     lf_MimeType = f_MimeType f, lf_LastModified = f_LastModified f,
                     lf_UpdatedAt = f_UpdatedAt f\<rparr>)
            (sort_key f_FilePath (workspace_files db wid)))"

subsection \<open>The connection and its transaction blocks\<close>

text \<open>
  What the service takes from outside the repository: the digest of \<^verbatim>\<open>crypto/sha256\<close>,
  the extension table of \<^verbatim>\<open>mime\<close>, the case mapping of \<^verbatim>\<open>unicode\<close> for text that is
  not ASCII, and how the database server treats a block in which a statement has
  failed. PostgreSQL refuses every later statement of such a block and answers its
  COMMIT with a rollback (\<open>pg_aborts_failed_block = True\<close>); the other setting lets the
  block go on and commit. A result that depends on the setting names it.
\<close>

record environment =
  sha256_Sum256 :: "bytes \<Rightarrow> bytes"
  mime_TypeByExtension :: "string \<Rightarrow> string"
  unicode_ToLower :: "string \<Rightarrow> string"
  pg_aborts_failed_block :: bool

text \<open>
  An open block: the database to go back to, the database the statements of the block
  have produced so far, and whether one of them has failed. The queries handle of the
  service wraps the same connection as its transactions (\<^verbatim>\<open>main.go\<close>), so a statement
  issued while a block is open belongs to the block.
\<close>

record Tx =
  tx_base :: database
  tx_work :: database
  tx_failed :: bool

definition conn_Begin :: "database \<Rightarrow> db_error + Tx" where
  "conn_Begin db =
     (let db' = db\<lparr>db_tx_begun := Suc (db_tx_begun db)\<rparr>
      in Inr \<lparr>tx_base = db', tx_work = db', tx_failed = False\<rparr>)"

definition tx_exec ::
  "environment \<Rightarrow> (database \<Rightarrow> 'p \<Rightarrow> db_error + 'r \<times> database) \<Rightarrow> 'p \<Rightarrow> Tx \<Rightarrow> (db_error + 'r) \<times> Tx" where
  "tx_exec env stmt arg tx =
     (if tx_failed tx then (Inl InFailedSqlTransaction, tx)
      else case stmt (tx_work tx) arg of
        Inl err \<Rightarrow> (Inl err, tx\<lparr>tx_failed := pg_aborts_failed_block env\<rparr>)
      | Inr (r, db') \<Rightarrow> (Inr r, tx\<lparr>tx_work := db'\<rparr>))"

definition tx_Commit :: "Tx \<Rightarrow> (db_error + unit) \<times> database" where
  "tx_Commit tx =
     (if tx_failed tx then (Inl ErrTxCommitRollback, tx_base tx)
      else (Inr (), tx_work tx))"

definition tx_Rollback :: "Tx \<Rightarrow> database" where
  "tx_Rollback tx = tx_base tx"

text \<open>A statement outside a block commits by itself.\<close>

definition conn_exec ::
  "(database \<Rightarrow> 'p \<Rightarrow> db_error + 'r \<times> database) \<Rightarrow> 'p \<Rightarrow> database \<Rightarrow> (db_error + 'r) \<times> database" where
  "conn_exec stmt arg db =
     (case stmt db arg of
        Inl err \<Rightarrow> (Inl err, db)
      | Inr (r, db') \<Rightarrow> (Inr r, db'))"

fun Error :: "db_error \<Rightarrow> string" where
  "Error ErrNoRows = ''no rows in result set''"
| "Error ForeignKeyViolation = ''violates foreign key constraint''"
| "Error UniqueViolation = ''duplicate key value violates unique constraint''"
| "Error InFailedSqlTransaction = ''current transaction is aborted''"
| "Error ErrTxCommitRollback = ''commit unexpectedly resulted in rollback''"

subsection \<open>Package domain\<close>


record FileInfo =
  fi_ID :: uuid
  fi_WorkspaceID :: uuid
  fi_FilePath :: string
  fi_ContentHash :: string
  fi_SizeBytes :: int64
  fi_MimeType :: string
  fi_LastModified :: time
  fi_UpdatedAt :: time

record FileWithContent = FileInfo +
  Content :: bytes

record FileUploadRequest =
  req_WorkspaceID :: uuid
  req_FilePath :: string
  req_Content :: bytes
  req_LastModified :: time
  req_ClientID :: string

subsection \<open>Paths, formats and digests\<close>

text \<open>
  \<^verbatim>\<open>filepath.Ext\<close> on a system whose separator is the slash: scan from the end, stop
  at a separator, return the rest of the path from the first dot met.
\<close>

fun ext_scan :: "string \<Rightarrow> string \<Rightarrow> string" where
  "ext_scan [] seen = []"
| "ext_scan (c # front) seen =
     (if c = CHR ''/'' then []
      else if c = CHR ''.'' then c # seen
      else ext_scan front (c # seen))"

definition filepath_Ext :: "string \<Rightarrow> string" where
  "filepath_Ext path = ext_scan (rev path) []"

definition ascii_lower :: "char \<Rightarrow> char" where
  "ascii_lower c =
     (if CHR ''A'' \<le> c \<and> c \<le> CHR ''Z'' then char_of (of_char c + (32::nat)) else c)"

definition is_ascii :: "string \<Rightarrow> bool" where
  "is_ascii s \<longleftrightarrow> (\<forall>c \<in> set s. of_char c < (128::nat))"

text \<open>
  \<^verbatim>\<open>strings.ToLower\<close> maps the bytes itself when the string is ASCII and goes through
  the tables of \<^verbatim>\<open>unicode\<close> otherwise.
\<close>

definition strings_ToLower :: "environment \<Rightarrow> string \<Rightarrow> string" where
  "strings_ToLower env s = (if is_ascii s then map ascii_lower s else unicode_ToLower env s)"


definition detectMimeType :: "environment \<Rightarrow> string \<Rightarrow> bytes \<Rightarrow> string" where
  "detectMimeType env filePath content =
     (let ext = strings_ToLower env (filepath_Ext filePath)
      in if ext = ''.md'' \<or> ext = ''.markdown'' then ''text/markdown''
         else if ext = ''.org'' then ''text/org''
         else if ext = ''.txt'' then ''text/plain''
         else let mimeType = mime_TypeByExtension env ext
              in if mimeType \<noteq> [] then mimeType else ''text/plain'')"

text \<open>\<^verbatim>\<open>fmt.Sprintf("%x", hash)\<close>: two lower-case hexadecimal digits for each byte.\<close>

definition hex_digit :: "nat \<Rightarrow> char" where
  "hex_digit n = ''0123456789abcdef'' ! (n mod 16)"

definition hex_byte :: "char \<Rightarrow> string" where
  "hex_byte c = [hex_digit (of_char c div 16), hex_digit (of_char c mod 16)]"

definition Sprintf_x :: "bytes \<Rightarrow> string" where
  "Sprintf_x bs = concat (map hex_byte bs)"

subsection \<open>The file service\<close>

record FileService =
  disableAsyncMetadataParsing :: bool

datatype svc_error =
    WorkspaceNotFound db_error
  | AccessDenied
  | FailedToGetStorageUsage db_error
  | StorageLimitExceeded int64 int64
  | FailedToCreateSyncOperation db_error
  | FailedToStartTransaction db_error
  | FailedToUpsertFile db_error
  | FailedToUpdateStorageUsage db_error
  | FailedToCommitTransaction db_error
  | FileNotFound db_error
  | FailedToListFiles db_error
  | FailedToDeleteFile db_error
  | Unwrapped db_error

text \<open>
  \<open>StorageLimitExceeded need limit\<close> is the error
  \<^verbatim>\<open>storage limit exceeded: need %d bytes, limit %d bytes\<close>; the other constructors
  carry the error they wrap, and \<open>Unwrapped\<close> is a database error returned as it is.
\<close>

definition file_info :: "File \<Rightarrow> FileInfo" where
  "file_info file =
     \<lparr>fi_ID = PgToUUID (f_ID file),
      fi_WorkspaceID = PgToUUID (f_WorkspaceID file),
      fi_FilePath = f_FilePath file,
      fi_ContentHash = f_ContentHash file,
      fi_SizeBytes = f_SizeBytes file,
      fi_MimeType = PgToString (f_MimeType file),
      fi_LastModified = PgToTime (f_LastModified file),
      fi_UpdatedAt = PgToTime (f_UpdatedAt file)\<rparr>"

definition mark_failed :: "SyncOperation \<Rightarrow> db_error \<Rightarrow> UpdateSyncOperationStatusParams" where
  "mark_failed syncOp err =
     \<lparr>us_ID = so_ID syncOp, us_Status = ''failed'',
      us_ErrorMessage = StringPtrToPg (Some (Error err))\<rparr>"

text \<open>
  \<open>UploadFile\<close> from the point where its transaction is open. The result is the
  returned pair, the database, and the rows for which a detached
  \<^verbatim>\<open>parseFileMetadata\<close> task has been started. The deferred \<^verbatim>\<open>tx.Rollback\<close> is written
  at each return that leaves the block open.
\<close>

definition UploadFile_tx ::
  "environment \<Rightarrow> FileService \<Rightarrow> Tx \<Rightarrow> SyncOperation \<Rightarrow> FileUploadRequest \<Rightarrow> string \<Rightarrow> int64 \<Rightarrow> string
     \<Rightarrow> (svc_error + FileInfo) \<times> database \<times> File list" where
  "UploadFile_tx env s tx syncOp req contentHash newStorageUsage mimeType =
     (case tx_exec env UpsertFile
             \<lparr>uf_WorkspaceID = UUIDToPg (req_WorkspaceID req),
              uf_FilePath = req_FilePath req,
              uf_ContentHash = contentHash,
              uf_Content = req_Content req,
              uf_SizeBytes = of_nat (length (req_Content req)),
              uf_MimeType = StringToPg mimeType,
              uf_LastModified = TimeToPg (req_LastModified req)\<rparr> tx of
        (Inl err, tx1) \<Rightarrow>
          (case tx_exec env UpdateSyncOperationStatus (mark_failed syncOp err) tx1 of
             (_, tx2) \<Rightarrow> (Inl (FailedToUpsertFile err), tx_Rollback tx2, []))
      | (Inr file, tx1) \<Rightarrow>
          (case tx_exec env UpdateWorkspaceStorageUsed
                  \<lparr>uw_ID = UUIDToPg (req_WorkspaceID req),
                   uw_StorageUsedBytes = Int64ToPg newStorageUsage\<rparr> tx1 of
             (Inl err, tx2) \<Rightarrow>
               (case tx_exec env UpdateSyncOperationStatus (mark_failed syncOp err) tx2 of
                  (_, tx3) \<Rightarrow> (Inl (FailedToUpdateStorageUsage err), tx_Rollback tx3, []))
           | (Inr _, tx2) \<Rightarrow>
               (case tx_exec env CreateFileVersion
                       \<lparr>cv_FileID = f_ID file,
                        cv_VersionNumber = 1,
                        cv_ContentHash = contentHash,
                        cv_Content = req_Content req\<rparr> tx2 of
                  (_, tx3) \<Rightarrow>
                    (case tx_Commit tx3 of
                       (Inl err, db1) \<Rightarrow>
                         (case conn_exec UpdateSyncOperationStatus (mark_failed syncOp err) db1 of
                            (_, db2) \<Rightarrow> (Inl (FailedToCommitTransaction err), db2, []))
                     | (Inr _, db1) \<Rightarrow>
                         (case conn_exec UpdateSyncOperationStatus
                                 \<lparr>us_ID = so_ID syncOp, us_Status = ''success'',
                                  us_ErrorMessage = None\<rparr> db1 of
                            (_, db2) \<Rightarrow>
                              (Inr (file_info file), db2,
                               if \<not> disableAsyncMetadataParsing s then [file] else []))))))"

definition UploadFile ::
  "environment \<Rightarrow> FileService \<Rightarrow> database \<Rightarrow> FileUploadRequest \<Rightarrow> uuid
     \<Rightarrow> (svc_error + FileInfo) \<times> database \<times> File list" where
  "UploadFile env s db req userID =
     (case GetWorkspaceByID db (UUIDToPg (req_WorkspaceID req)) of
        Inl err \<Rightarrow> (Inl (WorkspaceNotFound err), db, [])
      | Inr workspace \<Rightarrow>
          if PgToUUID (w_UserID workspace) \<noteq> userID then (Inl AccessDenied, db, [])
          else
            let contentHash = Sprintf_x (sha256_Sum256 env (req_Content req))
            in case GetWorkspaceStorageUsage db (UUIDToPg (req_WorkspaceID req)) of
                 Inl err \<Rightarrow> (Inl (FailedToGetStorageUsage err), db, [])
               | Inr storageInfo \<Rightarrow>
                   let currentFileSize =
                         (case GetFile_query db \<lparr>gf_WorkspaceID = UUIDToPg (req_WorkspaceID req),
                                            gf_FilePath = req_FilePath req\<rparr> of
                            Inr existingFile \<Rightarrow> f_SizeBytes existingFile
                          | Inl _ \<Rightarrow> 0);
                       newStorageUsage =
                         PgToInt64 (su_StorageUsedBytes storageInfo) - currentFileSize
                           + of_nat (length (req_Content req))
                   in if su_StorageLimitBytes storageInfo <s newStorageUsage
                      then (Inl (StorageLimitExceeded newStorageUsage
                                   (su_StorageLimitBytes storageInfo)), db, [])
                      else
                        let mimeType = detectMimeType env (req_FilePath req) (req_Content req)
                        in case conn_exec CreateSyncOperation
                                  \<lparr>cs_WorkspaceID = UUIDToPg (req_WorkspaceID req),
                                   cs_FileID = None,
                                   cs_OperationType = ''upload'',
                                   cs_ClientID = StringToPg (req_ClientID req),
                                   cs_Status = ''pending''\<rparr> db of
                             (Inl err, db1) \<Rightarrow> (Inl (FailedToCreateSyncOperation err), db1, [])
                           | (Inr syncOp, db1) \<Rightarrow>
                               (case conn_Begin db1 of
                                  Inl err \<Rightarrow> (Inl (FailedToStartTransaction err), db1, [])
                                | Inr tx \<Rightarrow>
                                    UploadFile_tx env s tx syncOp req contentHash
                                      newStorageUsage mimeType))"

definition GetFile :: "database \<Rightarrow> uuid \<Rightarrow> string \<Rightarrow> uuid \<Rightarrow> svc_error + FileInfo" where
  "GetFile db workspaceID filePath userID =
     (case GetWorkspaceByID db (UUIDToPg workspaceID) of
        Inl err \<Rightarrow> Inl (WorkspaceNotFound err)
      | Inr workspace \<Rightarrow>
          if PgToUUID (w_UserID workspace) \<noteq> userID then Inl AccessDenied
          else case GetFile_query db \<lparr>gf_WorkspaceID = UUIDToPg workspaceID, gf_FilePath = filePath\<rparr> of
                 Inl err \<Rightarrow> Inl (FileNotFound err)
               | Inr file \<Rightarrow> Inr (file_info file))"

definition GetFileContent ::
  "database \<Rightarrow> uuid \<Rightarrow> string \<Rightarrow> uuid \<Rightarrow> svc_error + FileWithContent" where
  "GetFileContent db workspaceID filePath userID =
     (case GetWorkspaceByID db (UUIDToPg workspaceID) of
        Inl err \<Rightarrow> Inl (WorkspaceNotFound err)
      | Inr workspace \<Rightarrow>
          if PgToUUID (w_UserID workspace) \<noteq> userID then Inl AccessDenied
          else case GetFile_query db \<lparr>gf_WorkspaceID = UUIDToPg workspaceID, gf_FilePath = filePath\<rparr> of
                 Inl err \<Rightarrow> Inl (FileNotFound err)
               | Inr file \<Rightarrow> Inr (FileInfo.extend (file_info file) \<lparr>Content = f_Content file\<rparr>))"

definition ListFiles :: "database \<Rightarrow> uuid \<Rightarrow> uuid \<Rightarrow> svc_error + FileInfo list" where
  "ListFiles db workspaceID userID =
     (case GetWorkspaceByID db (UUIDToPg workspaceID) of
        Inl err \<Rightarrow> Inl (WorkspaceNotFound err)
      | Inr workspace \<Rightarrow>
          if PgToUUID (w_UserID workspace) \<noteq> userID then Inl AccessDenied
          else case ListFiles_query db (UUIDToPg workspaceID) of
                 Inl err \<Rightarrow> Inl (FailedToListFiles err)
               | Inr files \<Rightarrow>
                   Inr (map (\<lambda>file. \<lparr>fi_ID = PgToUUID (lf_ID file),
                                      fi_WorkspaceID = PgToUUID (lf_WorkspaceID file),
                                      fi_FilePath = lf_FilePath file,
                                      fi_ContentHash = lf_ContentHash file,
                                      fi_SizeBytes = lf_SizeBytes file,
                                      fi_MimeType = PgToString (lf_MimeType file),
                                      fi_LastModified = PgToTime (lf_LastModified file),
                                      fi_UpdatedAt = PgToTime (lf_UpdatedAt file)\<rparr>) files))"

text \<open>\<open>DeleteFile\<close> returns Go's \<^verbatim>\<open>error\<close>: \<open>None\<close> is \<^verbatim>\<open>nil\<close>.\<close>

definition DeleteFile ::
  "environment \<Rightarrow> database \<Rightarrow> uuid \<Rightarrow> string \<Rightarrow> uuid \<Rightarrow> svc_error option \<times> database" where
  "DeleteFile env db workspaceID filePath userID =
     (case GetWorkspaceByID db (UUIDToPg workspaceID) of
        Inl err \<Rightarrow> (Some (WorkspaceNotFound err), db)
      | Inr workspace \<Rightarrow>
          if PgToUUID (w_UserID workspace) \<noteq> userID then (Some AccessDenied, db)
          else case GetFile_query db \<lparr>gf_WorkspaceID = UUIDToPg workspaceID, gf_FilePath = filePath\<rparr> of
                 Inl err \<Rightarrow> (Some (FileNotFound err), db)
               | Inr file \<Rightarrow>
                   (case conn_Begin db of
                      Inl err \<Rightarrow> (Some (FailedToStartTransaction err), db)
                    | Inr tx \<Rightarrow>
                        (case tx_exec env DeleteFile_query
                                \<lparr>df_WorkspaceID = UUIDToPg workspaceID,
                                 df_FilePath = filePath\<rparr> tx of
                           (Inl err, tx1) \<Rightarrow> (Some (FailedToDeleteFile err), tx_Rollback tx1)
                         | (Inr _, tx1) \<Rightarrow>
                             let newUsage = PgToInt64 (w_StorageUsedBytes workspace) - f_SizeBytes file
                             in case tx_exec env UpdateWorkspaceStorageUsed
                                       \<lparr>uw_ID = UUIDToPg workspaceID,
                                        uw_StorageUsedBytes = Int64ToPg newUsage\<rparr> tx1 of
                                  (Inl err, tx2) \<Rightarrow>
                                    (Some (FailedToUpdateStorageUsage err), tx_Rollback tx2)
                                | (Inr _, tx2) \<Rightarrow>
                                    (case tx_Commit tx2 of
                                       (Inl err, db1) \<Rightarrow> (Some (Unwrapped err), db1)
                                     | (Inr _, db1) \<Rightarrow> (None, db1)))))"

subsection \<open>Sequences of operations and the quantities the properties speak of\<close>


text \<open>
  An environment for the worked examples: a digest that is easy to read, a table with
  one entry, and PostgreSQL's treatment of a failed block.
\<close>

definition example_env :: environment where
  "example_env =
     \<lparr>sha256_Sum256 = (\<lambda>bs. rev bs),
      mime_TypeByExtension = (\<lambda>ext. if ext = ''.json'' then ''application/json'' else []),
      unicode_ToLower = (\<lambda>s. s),
      pg_aborts_failed_block = True\<rparr>"




text \<open>
  The quantities of the quota check, in the words of the specification: the size of
  the file already stored at the path (0 without one), and the usage projected for
  the upload. The two parameter records are the ones \<open>UploadFile\<close> passes to its
  statements.
\<close>

definition existing_size :: "database \<Rightarrow> uuid \<Rightarrow> string \<Rightarrow> int64" where
  "existing_size db workspaceID filePath =
     (case GetFile_query db \<lparr>gf_WorkspaceID = UUIDToPg workspaceID, gf_FilePath = filePath\<rparr> of
        Inr existingFile \<Rightarrow> f_SizeBytes existingFile
      | Inl _ \<Rightarrow> 0)"

definition projected_usage :: "Workspace \<Rightarrow> database \<Rightarrow> FileUploadRequest \<Rightarrow> int64" where
  "projected_usage workspace db req =
     PgToInt64 (w_StorageUsedBytes workspace)
       - existing_size db (req_WorkspaceID req) (req_FilePath req)
       + of_nat (length (req_Content req))"

definition upsert_params :: "environment \<Rightarrow> FileUploadRequest \<Rightarrow> UpsertFileParams" where
  "upsert_params env req =
     \<lparr>uf_WorkspaceID = UUIDToPg (req_WorkspaceID req),
      uf_FilePath = req_FilePath req,
      uf_ContentHash = Sprintf_x (sha256_Sum256 env (req_Content req)),
      uf_Content = req_Content req,
      uf_SizeBytes = of_nat (length (req_Content req)),
      uf_MimeType = StringToPg (detectMimeType env (req_FilePath req) (req_Content req)),
      uf_LastModified = TimeToPg (req_LastModified req)\<rparr>"

definition version_params :: "environment \<Rightarrow> FileUploadRequest \<Rightarrow> File \<Rightarrow> CreateFileVersionParams" where
  "version_params env req row =
     \<lparr>cv_FileID = f_ID row, cv_VersionNumber = 1,
      cv_ContentHash = Sprintf_x (sha256_Sum256 env (req_Content req)),
      cv_Content = req_Content req\<rparr>"

text \<open>A workspace of user 7 with a limit of 100 bytes and nothing stored in it.\<close>

definition example_svc :: FileService where
  "example_svc = \<lparr>disableAsyncMetadataParsing = False\<rparr>"

definition example_workspace :: Workspace where
  "example_workspace =
     \<lparr>w_ID = Some 1, w_UserID = Some 7, w_Name = ''notes'', w_StorageLimitBytes = 100,
      w_StorageUsedBytes = Some 0, w_CreatedAt = Some 0, w_UpdatedAt = Some 0\<rparr>"

definition example_db :: database where
  "example_db =
     \<lparr>db_workspaces = [example_workspace], db_files = [], db_file_versions = [],
      db_sync_operations = [], db_next_uuid = 10, db_now = 5, db_tx_begun = 0\<rparr>"

definition example_req :: "string \<Rightarrow> bytes \<Rightarrow> FileUploadRequest" where
  "example_req path content =
     \<lparr>req_WorkspaceID = 1, req_FilePath = path, req_Content = content,
      req_LastModified = 3, req_ClientID = ''laptop''\<rparr>"

text \<open>
  The same workspace with 90 of its 100 bytes used by one stored file.
\<close>

definition scenario_db :: database where
  "scenario_db =
     \<lparr>db_workspaces = [example_workspace\<lparr>w_StorageUsedBytes := Some 90\<rparr>],
      db_files =
        [\<lparr>f_ID = Some 4, f_WorkspaceID = Some 1, f_FilePath = ''journal.org'',
          f_ContentHash = Sprintf_x (sha256_Sum256 example_env (replicate 90 CHR ''j'')),
          f_Content = replicate 90 CHR ''j'', f_SizeBytes = 90,
          f_MimeType = Some ''text/org'', f_LastModified = Some 2,
          f_CreatedAt = Some 2, f_UpdatedAt = Some 2\<rparr>],
      db_file_versions = [], db_sync_operations = [], db_next_uuid = 10, db_now = 5,
      db_tx_begun = 0\<rparr>"

text \<open>
  Two databases hold the same files, workspaces and versions (they may differ in the
  audit log and in the counters).
\<close>

definition same_tables :: "database \<Rightarrow> database \<Rightarrow> bool" where
  "same_tables a b \<longleftrightarrow>
     db_files a = db_files b \<and> db_workspaces a = db_workspaces b \<and>
     db_file_versions a = db_file_versions b"

text \<open>
  A sequence of uploads and deletions, run one after the other. \<open>storage_used_is_sum\<close>
  says that the usage figure of a workspace is the sum of the sizes of the files stored
  in it; \<open>quota_inv\<close> adds what keeps that true from one operation to the next: one
  row for each path, no negative size, and a sum that is not above the limit.
\<close>

datatype operation = Upload FileUploadRequest uuid | Delete uuid string uuid

fun apply_operation :: "environment \<Rightarrow> FileService \<Rightarrow> database \<Rightarrow> operation \<Rightarrow> database" where
  "apply_operation env s db (Upload req userID) = fst (snd (UploadFile env s db req userID))"
| "apply_operation env s db (Delete workspaceID filePath userID) =
     snd (DeleteFile env db workspaceID filePath userID)"

definition run_operations ::
  "environment \<Rightarrow> FileService \<Rightarrow> database \<Rightarrow> operation list \<Rightarrow> database" where
  "run_operations env s db ops = foldl (apply_operation env s) db ops"

definition storage_used_is_sum :: "database \<Rightarrow> uuid \<Rightarrow> bool" where
  "storage_used_is_sum db workspaceID \<longleftrightarrow>
     (case GetWorkspaceByID db (UUIDToPg workspaceID) of
        Inr workspace \<Rightarrow>
          sint (PgToInt64 (w_StorageUsedBytes workspace))
            = actual_storage_used db (UUIDToPg workspaceID)
      | Inl _ \<Rightarrow> False)"

definition quota_inv :: "uuid \<Rightarrow> int64 \<Rightarrow> database \<Rightarrow> bool" where
  "quota_inv workspaceID limit db \<longleftrightarrow>
     (\<exists>workspace. GetWorkspaceByID db (UUIDToPg workspaceID) = Inr workspace \<and>
        w_StorageLimitBytes workspace = limit \<and>
        sint (PgToInt64 (w_StorageUsedBytes workspace))
          = actual_storage_used db (UUIDToPg workspaceID)) \<and>
     distinct (map f_FilePath (workspace_files db (UUIDToPg workspaceID))) \<and>
     (\<forall>f \<in> set (workspace_files db (UUIDToPg workspaceID)). 0 \<le> sint (f_SizeBytes f)) \<and>
     actual_storage_used db (UUIDToPg workspaceID) \<le> max 0 (sint limit)"

text \<open>Operations on the example workspace: the owner is user 7.\<close>

definition example_ops :: "operation list" where
  "example_ops =
     [Upload (example_req ''a.md'' ''X'') 7,
      Upload (example_req ''b.txt'' ''hello'') 7,
      Upload (example_req ''a.md'' ''XY'') 7,
      Upload (example_req ''c.org'' (replicate 101 CHR ''x'')) 7,
      Delete 1 ''b.txt'' 8,
      Delete 1 ''a.md'' 7]"


fun is_upload :: "operation \<Rightarrow> bool" where
  "is_upload (Upload req userID) = True"
| "is_upload (Delete workspaceID filePath userID) = False"

definition has_version_one :: "database \<Rightarrow> uuid \<Rightarrow> string \<Rightarrow> bool" where
  "has_version_one db workspaceID filePath \<longleftrightarrow>
     (case GetFile_query db \<lparr>gf_WorkspaceID = UUIDToPg workspaceID, gf_FilePath = filePath\<rparr> of
        Inr row \<Rightarrow> (\<exists>v \<in> set (db_file_versions db). fv_FileID v = f_ID row \<and> fv_VersionNumber v = 1)
      | Inl _ \<Rightarrow> False)"

text \<open>
  The example database after its owner has uploaded \<^verbatim>\<open>a.md\<close> with the one byte
  \<^verbatim>\<open>X\<close>, and operations that leave that path alone.
\<close>

definition stored_file :: File where
  "stored_file =
     \<lparr>f_ID = Some 11, f_WorkspaceID = Some 1, f_FilePath = ''a.md'', f_ContentHash = ''58'',
      f_Content = ''X'', f_SizeBytes = 1, f_MimeType = Some ''text/markdown'',
      f_LastModified = Some 3, f_CreatedAt = Some 5, f_UpdatedAt = Some 5\<rparr>"

definition stored_workspace :: Workspace where
  "stored_workspace = example_workspace\<lparr>w_StorageUsedBytes := Some 1, w_UpdatedAt := Some 5\<rparr>"

definition stored_db :: database where
  "stored_db =
     \<lparr>db_workspaces = [stored_workspace],
      db_files = [stored_file],
      db_file_versions =
        [\<lparr>fv_ID = Some 12, fv_FileID = Some 11, fv_VersionNumber = 1, fv_ContentHash = ''58'',
          fv_Content = ''X'', fv_CreatedAt = Some 5\<rparr>],
      db_sync_operations =
        [\<lparr>so_ID = Some 10, so_WorkspaceID = Some 1, so_FileID = None,
          so_OperationType = ''upload'', so_ClientID = Some ''laptop'', so_Status = ''success'',
          so_ErrorMessage = None, so_CreatedAt = Some 5\<rparr>],
      db_next_uuid = 13, db_now = 5, db_tx_begun = 1\<rparr>"


definition more_uploads :: "operation list" where
  "more_uploads =
     [Upload (example_req ''a.md'' ''XY'') 7,
      Upload (example_req ''c.org'' ''* one'') 7]"


section \<open>Format detection\<close>


















section \<open>Uploads\<close>

lemmas conv_defs = UUIDToPg_def PgToUUID_def TimeToPg_def PgToTime_def StringToPg_def
  PgToString_def StringPtrToPg_def Int64ToPg_def PgToInt64_def

lemmas example_defs = example_env_def example_svc_def example_workspace_def example_db_def
  example_req_def

lemmas stored_defs = stored_file_def stored_workspace_def stored_db_def

lemma upload_example:
  "UploadFile example_env example_svc example_db (example_req ''a.md'' ''X'') 7
     = (Inr (file_info stored_file), stored_db, [stored_file])"
  by code_simp

lemma sint_of_nat_64: "n < 2 ^ 63 \<Longrightarrow> sint (of_nat n :: int64) = int n"
proof -
  assume "n < 2 ^ 63"
  then have "int n < 2 ^ 63" by (metis of_nat_less_iff of_nat_numeral of_nat_power)
  then have "signed_take_bit 63 (int n) = int n"
    by (intro signed_take_bit_int_eq_self) simp_all
  then show ?thesis by (simp add: signed_of_nat)
qed

lemma sint_sub_add_64:
  fixes a b c :: int64
  assumes "- (2 ^ 63) \<le> sint a - sint b + sint c" "sint a - sint b + sint c < 2 ^ 63"
  shows "sint (a - b + c) = sint a - sint b + sint c"
proof -
  have "a - b + c = word_of_int (sint a - sint b + sint c)"
    by simp
  then have "sint (a - b + c) = signed_take_bit 63 (sint a - sint b + sint c)"
    by (simp only: sint_sbintrunc') simp
  also have "\<dots> = sint a - sint b + sint c"
    using assms by (intro signed_take_bit_int_eq_self) simp_all
  finally show ?thesis .
qed

lemma sint_sub_64:
  fixes a b :: int64
  assumes "- (2 ^ 63) \<le> sint a - sint b" "sint a - sint b < 2 ^ 63"
  shows "sint (a - b) = sint a - sint b"
  using assms by (simp add: sint_word_ariths signed_take_bit_int_eq_self)

lemma tx_exec_Inr:
  "tx_exec env stmt arg tx = (Inr r, tx') \<Longrightarrow>
     \<exists>db'. stmt (tx_work tx) arg = Inr (r, db') \<and> tx' = tx\<lparr>tx_work := db'\<rparr> \<and> \<not> tx_failed tx"
  by (auto simp: tx_exec_def split: if_splits sum.splits)

lemma UpsertFile_result:
  "UpsertFile db arg = Inr (row, db') \<Longrightarrow>
     f_WorkspaceID row = uf_WorkspaceID arg \<and> f_FilePath row = uf_FilePath arg \<and>
     f_ContentHash row = uf_ContentHash arg \<and> f_Content row = uf_Content arg \<and>
     f_SizeBytes row = uf_SizeBytes arg \<and> f_MimeType row = uf_MimeType arg \<and>
     f_LastModified row = uf_LastModified arg"
  by (auto simp: UpsertFile_def excluded_row_def inserted_row_def same_path_def
      split: if_splits option.splits dest: find_Some_iff [THEN iffD1])

lemma UploadFile_tx_not_quota:
  "UploadFile_tx env s tx syncOp req h n m \<noteq> (Inl (StorageLimitExceeded a b), db', g)"
  unfolding UploadFile_tx_def
  by (auto split: prod.splits sum.splits)

lemma UploadFile_tx_success_row:
  assumes "UploadFile_tx env s tx syncOp req contentHash newStorageUsage mimeType = (Inr fi, db', g)"
  shows "\<exists>row dbu. UpsertFile (tx_work tx)
             \<lparr>uf_WorkspaceID = UUIDToPg (req_WorkspaceID req),
              uf_FilePath = req_FilePath req,
              uf_ContentHash = contentHash,
              uf_Content = req_Content req,
              uf_SizeBytes = of_nat (length (req_Content req)),
              uf_MimeType = StringToPg mimeType,
              uf_LastModified = TimeToPg (req_LastModified req)\<rparr> = Inr (row, dbu)
           \<and> fi = file_info row"
  using assms unfolding UploadFile_tx_def
  by (auto split: prod.splits sum.splits dest!: tx_exec_Inr)

lemma UploadFile_success_tx:
  assumes "UploadFile env s db req userID = (Inr fi, db', g)"
  shows "\<exists>tx syncOp newStorageUsage mimeType.
           UploadFile_tx env s tx syncOp req (Sprintf_x (sha256_Sum256 env (req_Content req)))
             newStorageUsage mimeType = (Inr fi, db', g)"
  using assms unfolding UploadFile_def
  by (auto simp: Let_def split: prod.splits sum.splits if_splits)

lemma hex_digit_lower: "hex_digit n \<in> set ''0123456789abcdef''"
proof -
  have "n mod 16 < length ''0123456789abcdef''" by simp
  then show ?thesis unfolding hex_digit_def by (rule nth_mem)
qed

lemma Sprintf_x_chars: "set (Sprintf_x bs) \<subseteq> set ''0123456789abcdef''"
  using hex_digit_lower by (induction bs) (auto simp: Sprintf_x_def hex_byte_def)

lemma Sprintf_x_length: "length (Sprintf_x bs) = 2 * length bs"
  by (induction bs) (auto simp: Sprintf_x_def hex_byte_def)

lemma find_map_if:
  assumes "\<And>x. P (g x) = P x"
  shows "find P (map (\<lambda>x. if P x then g x else x) xs) = map_option g (find P xs)"
  using assms by (induction xs) auto

lemma find_append_new:
  "find P xs = None \<Longrightarrow> P x \<Longrightarrow> find P (xs @ [x]) = Some x"
  by (induction xs) (auto split: if_splits)

lemma find_filter_not: "find P (filter (\<lambda>x. \<not> P x) xs) = None"
  by (simp add: find_None_iff)

lemma same_path_excluded [simp]: "same_path w p (excluded_row db arg f) = same_path w p f"
  by (simp add: same_path_def excluded_row_def)

lemma UpsertFile_find:
  assumes "UpsertFile dbm arg = Inr (row, dbu)"
  shows "find (same_path (uf_WorkspaceID arg) (uf_FilePath arg)) (db_files dbu) = Some row \<and>
         db_workspaces dbu = db_workspaces dbm \<and> db_file_versions dbu = db_file_versions dbm \<and>
         db_now dbu = db_now dbm \<and> row \<in> set (db_files dbu)"
proof (cases "find (same_path (uf_WorkspaceID arg) (uf_FilePath arg)) (db_files dbm)")
  case None
  have "same_path (uf_WorkspaceID arg) (uf_FilePath arg) (inserted_row dbm arg)"
    by (simp add: same_path_def inserted_row_def)
  with None assms show ?thesis
    by (auto simp: UpsertFile_def find_append_new split: if_splits)
next
  case (Some old)
  then have "old \<in> set (db_files dbm)" "same_path (uf_WorkspaceID arg) (uf_FilePath arg) old"
    by (auto simp: find_Some_iff)
  with Some assms show ?thesis
    by (auto simp: UpsertFile_def find_map_if split: if_splits intro!: image_eqI [where x = old])
qed

lemma find_workspace_update:
  "find (\<lambda>w. w_ID w = wid)
     (map (\<lambda>w. if w_ID w = wid then w\<lparr>w_StorageUsedBytes := u, w_UpdatedAt := t\<rparr> else w) ws)
   = map_option (\<lambda>w. w\<lparr>w_StorageUsedBytes := u, w_UpdatedAt := t\<rparr>) (find (\<lambda>w. w_ID w = wid) ws)"
  by (induction ws) auto

lemma GetWorkspaceStorageUsage_of_workspace:
  "GetWorkspaceByID db wid = Inr workspace \<Longrightarrow>
   \<exists>info. GetWorkspaceStorageUsage db wid = Inr info \<and>
     su_StorageLimitBytes info = w_StorageLimitBytes workspace \<and>
     su_StorageUsedBytes info = w_StorageUsedBytes workspace"
  by (auto simp: GetWorkspaceByID_def GetWorkspaceStorageUsage_def split: option.splits)

lemma UploadFile_tx_success_steps:
  assumes "UploadFile_tx env s tx syncOp req (Sprintf_x (sha256_Sum256 env (req_Content req))) n
             (detectMimeType env (req_FilePath req) (req_Content req)) = (Inr fi, db', g)"
  obtains row tx1 tx2 r tx3 db1 where
    "tx_exec env UpsertFile (upsert_params env req) tx = (Inr row, tx1)"
    "tx_exec env UpdateWorkspaceStorageUsed
       \<lparr>uw_ID = UUIDToPg (req_WorkspaceID req), uw_StorageUsedBytes = Int64ToPg n\<rparr> tx1 = (Inr (), tx2)"
    "tx_exec env CreateFileVersion (version_params env req row) tx2 = (r, tx3)"
    "tx_Commit tx3 = (Inr (), db1)"
    "db' = snd (conn_exec UpdateSyncOperationStatus
                  \<lparr>us_ID = so_ID syncOp, us_Status = ''success'', us_ErrorMessage = None\<rparr> db1)"
    "fi = file_info row"
    "g = (if \<not> disableAsyncMetadataParsing s then [row] else [])"
  using assms unfolding UploadFile_tx_def upsert_params_def version_params_def
  by (auto split: prod.splits sum.splits)

lemma UploadFile_success_steps:
  assumes "UploadFile env s db req userID = (Inr fi, db', g)"
  obtains workspace syncOp db1 tx where
    "GetWorkspaceByID db (UUIDToPg (req_WorkspaceID req)) = Inr workspace"
    "PgToUUID (w_UserID workspace) = userID"
    "\<not> w_StorageLimitBytes workspace <s projected_usage workspace db req"
    "conn_exec CreateSyncOperation
       \<lparr>cs_WorkspaceID = UUIDToPg (req_WorkspaceID req), cs_FileID = None,
        cs_OperationType = ''upload'', cs_ClientID = StringToPg (req_ClientID req),
        cs_Status = ''pending''\<rparr> db = (Inr syncOp, db1)"
    "conn_Begin db1 = Inr tx"
    "UploadFile_tx env s tx syncOp req (Sprintf_x (sha256_Sum256 env (req_Content req)))
       (projected_usage workspace db req)
       (detectMimeType env (req_FilePath req) (req_Content req)) = (Inr fi, db', g)"
proof -
  from assms obtain workspace where
    w: "GetWorkspaceByID db (UUIDToPg (req_WorkspaceID req)) = Inr workspace"
    by (auto simp: UploadFile_def split: sum.splits)
  from GetWorkspaceStorageUsage_of_workspace [OF w] obtain info where
    info: "GetWorkspaceStorageUsage db (UUIDToPg (req_WorkspaceID req)) = Inr info"
      "su_StorageLimitBytes info = w_StorageLimitBytes workspace"
      "su_StorageUsedBytes info = w_StorageUsedBytes workspace"
    by blast
  from assms w info have
    "PgToUUID (w_UserID workspace) = userID \<and>
     \<not> w_StorageLimitBytes workspace <s projected_usage workspace db req \<and>
     (\<exists>syncOp db1 tx.
        conn_exec CreateSyncOperation
          \<lparr>cs_WorkspaceID = UUIDToPg (req_WorkspaceID req), cs_FileID = None,
           cs_OperationType = ''upload'', cs_ClientID = StringToPg (req_ClientID req),
           cs_Status = ''pending''\<rparr> db = (Inr syncOp, db1) \<and>
        conn_Begin db1 = Inr tx \<and>
        UploadFile_tx env s tx syncOp req (Sprintf_x (sha256_Sum256 env (req_Content req)))
          (projected_usage workspace db req)
          (detectMimeType env (req_FilePath req) (req_Content req)) = (Inr fi, db', g))"
    unfolding UploadFile_def projected_usage_def existing_size_def
    by (auto simp: Let_def split: prod.splits sum.splits if_splits)
  with w that show ?thesis by blast
qed


lemma conn_exec_CreateSyncOperation_frame:
  "conn_exec CreateSyncOperation arg db = (r, db1) \<Longrightarrow>
     db_files db1 = db_files db \<and> db_workspaces db1 = db_workspaces db \<and>
     db_file_versions db1 = db_file_versions db \<and> db_now db1 = db_now db"
  by (auto simp: conn_exec_def CreateSyncOperation_def Let_def split: sum.splits if_splits)

lemma conn_exec_UpdateSyncOperationStatus_frame:
  "db_files (snd (conn_exec UpdateSyncOperationStatus arg db)) = db_files db \<and>
   db_workspaces (snd (conn_exec UpdateSyncOperationStatus arg db)) = db_workspaces db \<and>
   db_file_versions (snd (conn_exec UpdateSyncOperationStatus arg db)) = db_file_versions db"
  by (simp add: conn_exec_def UpdateSyncOperationStatus_def)

lemma tx_exec_CreateFileVersion_cases:
  assumes "tx_exec env CreateFileVersion arg tx = (r, tx')" "\<not> tx_failed tx"
  shows "db_files (tx_work tx') = db_files (tx_work tx) \<and>
         db_workspaces (tx_work tx') = db_workspaces (tx_work tx) \<and>
         ((\<not> tx_failed tx' \<and>
           (\<exists>v. db_file_versions (tx_work tx') = db_file_versions (tx_work tx) @ [v] \<and>
                fv_FileID v = cv_FileID arg \<and> fv_VersionNumber v = cv_VersionNumber arg \<and>
                fv_ContentHash v = cv_ContentHash arg \<and> fv_Content v = cv_Content arg) \<and>
           \<not> (\<exists>v \<in> set (db_file_versions (tx_work tx)).
                 fv_FileID v = cv_FileID arg \<and> fv_VersionNumber v = cv_VersionNumber arg)) \<or>
          (tx_failed tx' = pg_aborts_failed_block env \<and>
           db_file_versions (tx_work tx') = db_file_versions (tx_work tx) \<and>
           ((\<exists>v \<in> set (db_file_versions (tx_work tx)).
               fv_FileID v = cv_FileID arg \<and> fv_VersionNumber v = cv_VersionNumber arg) \<or>
            \<not> (\<exists>f \<in> set (db_files (tx_work tx)). f_ID f = cv_FileID arg))))"
  using assms
  by (auto simp: tx_exec_def CreateFileVersion_def split: if_splits)

lemma UploadFile_success_effect:
  assumes "UploadFile env s db req userID = (Inr fi, db', g)"
  obtains workspace dbm row dbu where
    "GetWorkspaceByID db (UUIDToPg (req_WorkspaceID req)) = Inr workspace"
    "PgToUUID (w_UserID workspace) = userID"
    "\<not> w_StorageLimitBytes workspace <s projected_usage workspace db req"
    "db_files dbm = db_files db" "db_workspaces dbm = db_workspaces db"
    "db_now dbm = db_now db"
    "UpsertFile dbm (upsert_params env req) = Inr (row, dbu)"
    "fi = file_info row"
    "db_files db' = db_files dbu"
    "db_workspaces db' =
       map (\<lambda>w. if w_ID w = UUIDToPg (req_WorkspaceID req)
                 then w\<lparr>w_StorageUsedBytes := Int64ToPg (projected_usage workspace db req),
                        w_UpdatedAt := Some (db_now db)\<rparr>
                 else w) (db_workspaces db)"
    "(\<exists>v. db_file_versions db' = db_file_versions db @ [v] \<and>
          fv_FileID v = f_ID row \<and> fv_VersionNumber v = 1 \<and>
          fv_ContentHash v = Sprintf_x (sha256_Sum256 env (req_Content req)) \<and>
          fv_Content v = req_Content req) \<or>
     (\<not> pg_aborts_failed_block env \<and> db_file_versions db' = db_file_versions db \<and>
      (\<exists>v \<in> set (db_file_versions db). fv_FileID v = f_ID row \<and> fv_VersionNumber v = 1))"
    "db_file_versions db' \<noteq> db_file_versions db \<longrightarrow>
       \<not> (\<exists>v \<in> set (db_file_versions db). fv_FileID v = f_ID row \<and> fv_VersionNumber v = 1)"
proof (rule UploadFile_success_steps [OF assms])
  fix workspace syncOp db1 tx
  assume w: "GetWorkspaceByID db (UUIDToPg (req_WorkspaceID req)) = Inr workspace"
    and owner: "PgToUUID (w_UserID workspace) = userID"
    and quota: "\<not> w_StorageLimitBytes workspace <s projected_usage workspace db req"
    and audit: "conn_exec CreateSyncOperation
       \<lparr>cs_WorkspaceID = UUIDToPg (req_WorkspaceID req), cs_FileID = None,
        cs_OperationType = ''upload'', cs_ClientID = StringToPg (req_ClientID req),
        cs_Status = ''pending''\<rparr> db = (Inr syncOp, db1)"
    and bgn: "conn_Begin db1 = Inr tx"
    and body: "UploadFile_tx env s tx syncOp req (Sprintf_x (sha256_Sum256 env (req_Content req)))
       (projected_usage workspace db req)
       (detectMimeType env (req_FilePath req) (req_Content req)) = (Inr fi, db', g)"
  show thesis
  proof (rule UploadFile_tx_success_steps [OF body])
  fix row tx1 tx2 r tx3 db2
  assume s1: "tx_exec env UpsertFile (upsert_params env req) tx = (Inr row, tx1)"
    and s2: "tx_exec env UpdateWorkspaceStorageUsed
       \<lparr>uw_ID = UUIDToPg (req_WorkspaceID req),
        uw_StorageUsedBytes = Int64ToPg (projected_usage workspace db req)\<rparr> tx1 = (Inr (), tx2)"
    and s3: "tx_exec env CreateFileVersion (version_params env req row) tx2 = (r, tx3)"
    and s4: "tx_Commit tx3 = (Inr (), db2)"
    and s5: "db' = snd (conn_exec UpdateSyncOperationStatus
                  \<lparr>us_ID = so_ID syncOp, us_Status = ''success'', us_ErrorMessage = None\<rparr> db2)"
    and fi: "fi = file_info row"
  note f1 = conn_exec_CreateSyncOperation_frame [OF audit]
  from bgn have tx: "tx_work tx = db1\<lparr>db_tx_begun := Suc (db_tx_begun db1)\<rparr>" "\<not> tx_failed tx"
    by (auto simp: conn_Begin_def Let_def)
  have m: "db_files (tx_work tx) = db_files db" "db_workspaces (tx_work tx) = db_workspaces db"
    "db_now (tx_work tx) = db_now db" "db_file_versions (tx_work tx) = db_file_versions db"
    by (simp_all add: tx f1)
  from tx_exec_Inr [OF s1] obtain dbu where
    up: "UpsertFile (tx_work tx) (upsert_params env req) = Inr (row, dbu)"
    and tx1: "tx1 = tx\<lparr>tx_work := dbu\<rparr>"
    by blast
  from UpsertFile_find [OF up] have
    u: "db_workspaces dbu = db_workspaces db" "db_file_versions dbu = db_file_versions db"
      "db_now dbu = db_now db" "row \<in> set (db_files dbu)"
    by (simp_all add: m)
  from tx1 tx have w1: "tx_work tx1 = dbu" "\<not> tx_failed tx1" by simp_all
  from tx_exec_Inr [OF s2] obtain dbw where
    sw: "UpdateWorkspaceStorageUsed (tx_work tx1)
           \<lparr>uw_ID = UUIDToPg (req_WorkspaceID req),
            uw_StorageUsedBytes = Int64ToPg (projected_usage workspace db req)\<rparr> = Inr ((), dbw)"
    and tx2: "tx2 = tx1\<lparr>tx_work := dbw\<rparr>"
    by blast
  from sw have dbw: "db_files dbw = db_files dbu" "db_file_versions dbw = db_file_versions db"
    "db_workspaces dbw =
       map (\<lambda>w. if w_ID w = UUIDToPg (req_WorkspaceID req)
                 then w\<lparr>w_StorageUsedBytes := Int64ToPg (projected_usage workspace db req),
                        w_UpdatedAt := Some (db_now db)\<rparr>
                 else w) (db_workspaces db)"
    by (auto simp: UpdateWorkspaceStorageUsed_def w1 u)
  from tx2 w1 have w2: "tx_work tx2 = dbw" and nf: "\<not> tx_failed tx2" by simp_all
  note v = tx_exec_CreateFileVersion_cases [OF s3 nf, unfolded w2]
  from v have v1: "db_files (tx_work tx3) = db_files dbw"
    and v2: "db_workspaces (tx_work tx3) = db_workspaces dbw"
    by blast+
  from s4 have c: "db2 = tx_work tx3" "\<not> tx_failed tx3"
    by (auto simp: tx_Commit_def split: if_splits)
  note f5 = conn_exec_UpdateSyncOperationStatus_frame
    [of "\<lparr>us_ID = so_ID syncOp, us_Status = ''success'', us_ErrorMessage = None\<rparr>" db2,
     folded s5]
  have files: "db_files db' = db_files dbu"
    using f5 by (simp add: c v1 dbw)
  have wss: "db_workspaces db' =
       map (\<lambda>w. if w_ID w = UUIDToPg (req_WorkspaceID req)
                 then w\<lparr>w_StorageUsedBytes := Int64ToPg (projected_usage workspace db req),
                        w_UpdatedAt := Some (db_now db)\<rparr>
                 else w) (db_workspaces db)"
    using f5 by (simp add: c v2 dbw)
  have fv: "db_file_versions db' = db_file_versions (tx_work tx3)"
    using f5 by (simp add: c)
  have row_in: "\<exists>f \<in> set (db_files dbw). f_ID f = cv_FileID (version_params env req row)"
    using u(4) by (auto simp: version_params_def dbw)
  have par: "cv_FileID (version_params env req row) = f_ID row"
    "cv_VersionNumber (version_params env req row) = 1"
    "cv_ContentHash (version_params env req row) = Sprintf_x (sha256_Sum256 env (req_Content req))"
    "cv_Content (version_params env req row) = req_Content req"
    by (simp_all add: version_params_def)
  from v row_in c(2) have vers: "(\<exists>v. db_file_versions db' = db_file_versions db @ [v] \<and>
          fv_FileID v = f_ID row \<and> fv_VersionNumber v = 1 \<and>
          fv_ContentHash v = Sprintf_x (sha256_Sum256 env (req_Content req)) \<and>
          fv_Content v = req_Content req) \<or>
     (\<not> pg_aborts_failed_block env \<and> db_file_versions db' = db_file_versions db \<and>
      (\<exists>v \<in> set (db_file_versions db). fv_FileID v = f_ID row \<and> fv_VersionNumber v = 1))"
    unfolding fv par dbw(2) by blast
  from v have fresh: "db_file_versions db' \<noteq> db_file_versions db \<longrightarrow>
       \<not> (\<exists>v \<in> set (db_file_versions db). fv_FileID v = f_ID row \<and> fv_VersionNumber v = 1)"
    unfolding fv par dbw(2) by blast
  show thesis
    by (rule that [OF w owner quota m(1) m(2) m(3) up fi files wss vers fresh])
  qed
qed

lemma UploadFile_quota_rejected:
  assumes "GetWorkspaceByID db (UUIDToPg (req_WorkspaceID req)) = Inr workspace"
    and "PgToUUID (w_UserID workspace) = userID"
    and "w_StorageLimitBytes workspace <s projected_usage workspace db req"
  shows "UploadFile env s db req userID =
           (Inl (StorageLimitExceeded (projected_usage workspace db req)
                   (w_StorageLimitBytes workspace)), db, [])"
proof -
  from GetWorkspaceStorageUsage_of_workspace [OF assms(1)] obtain info where
    "GetWorkspaceStorageUsage db (UUIDToPg (req_WorkspaceID req)) = Inr info"
    "su_StorageLimitBytes info = w_StorageLimitBytes workspace"
    "su_StorageUsedBytes info = w_StorageUsedBytes workspace"
    by blast
  with assms show ?thesis
    by (simp add: UploadFile_def projected_usage_def existing_size_def Let_def)
qed

lemma UploadFile_quota_passed:
  assumes "GetWorkspaceByID db (UUIDToPg (req_WorkspaceID req)) = Inr workspace"
    and "PgToUUID (w_UserID workspace) = userID"
    and "\<not> w_StorageLimitBytes workspace <s projected_usage workspace db req"
  shows "fst (UploadFile env s db req userID) \<noteq> Inl (StorageLimitExceeded need limit)"
proof -
  from GetWorkspaceStorageUsage_of_workspace [OF assms(1)] obtain info where
    "GetWorkspaceStorageUsage db (UUIDToPg (req_WorkspaceID req)) = Inr info"
    "su_StorageLimitBytes info = w_StorageLimitBytes workspace"
    "su_StorageUsedBytes info = w_StorageUsedBytes workspace"
    by blast
  with assms show ?thesis
    using UploadFile_tx_not_quota [of env s _ _ req _ _ _ need limit]
    by (auto simp: UploadFile_def projected_usage_def existing_size_def Let_def conn_Begin_def
        split: prod.splits sum.splits) (metis prod.collapse)+
qed

lemma projected_usage_sint:
  assumes "- (2 ^ 63) \<le> sint (PgToInt64 (w_StorageUsedBytes workspace))
              - sint (existing_size db (req_WorkspaceID req) (req_FilePath req))
              + int (length (req_Content req))"
    and "sint (PgToInt64 (w_StorageUsedBytes workspace))
              - sint (existing_size db (req_WorkspaceID req) (req_FilePath req))
              + int (length (req_Content req)) < 2 ^ 63"
    and "length (req_Content req) < 2 ^ 63"
  shows "sint (projected_usage workspace db req) =
           sint (PgToInt64 (w_StorageUsedBytes workspace))
              - sint (existing_size db (req_WorkspaceID req) (req_FilePath req))
              + int (length (req_Content req))"
  unfolding projected_usage_def
  using assms sint_of_nat_64 [OF assms(3)]
  by (subst sint_sub_add_64) simp_all

text \<open>
  C2. With the workspace found and the caller its owner, the upload is refused with the
  quota error exactly when the projected usage, current usage minus the size of the
  file already at the path plus the size of the new content, is above the limit; the
  error carries the projected usage and the limit. While that sum stays inside the
  range of \<^verbatim>\<open>int64\<close> it is the sum of the integers. With a limit of 100 and 90 bytes
  used, 20 new bytes at a new path are refused with 110 and 100, and 5 new bytes are
  stored and bring the usage to 95.
\<close>

theorem quota_precheck:
  assumes "GetWorkspaceByID db (UUIDToPg (req_WorkspaceID req)) = Inr workspace"
    and "PgToUUID (w_UserID workspace) = userID"
  shows "(w_StorageLimitBytes workspace <s projected_usage workspace db req \<longrightarrow>
            UploadFile env s db req userID =
              (Inl (StorageLimitExceeded (projected_usage workspace db req)
                      (w_StorageLimitBytes workspace)), db, [])) \<and>
         (\<not> w_StorageLimitBytes workspace <s projected_usage workspace db req \<longrightarrow>
            (\<forall>need limit. fst (UploadFile env s db req userID)
                              \<noteq> Inl (StorageLimitExceeded need limit))) \<and>
         (- (2 ^ 63) \<le> sint (PgToInt64 (w_StorageUsedBytes workspace))
              - sint (existing_size db (req_WorkspaceID req) (req_FilePath req))
              + int (length (req_Content req)) \<and>
          sint (PgToInt64 (w_StorageUsedBytes workspace))
              - sint (existing_size db (req_WorkspaceID req) (req_FilePath req))
              + int (length (req_Content req)) < 2 ^ 63 \<and>
          length (req_Content req) < 2 ^ 63 \<longrightarrow>
            (w_StorageLimitBytes workspace <s projected_usage workspace db req \<longleftrightarrow>
             sint (w_StorageLimitBytes workspace)
               < sint (PgToInt64 (w_StorageUsedBytes workspace))
                   - sint (existing_size db (req_WorkspaceID req) (req_FilePath req))
                   + int (length (req_Content req)))) \<and>
         (w_StorageLimitBytes workspace = 100 \<and> w_StorageUsedBytes workspace = Some 90 \<and>
          existing_size db (req_WorkspaceID req) (req_FilePath req) = 0 \<and>
          length (req_Content req) = 20 \<longrightarrow>
            UploadFile env s db req userID = (Inl (StorageLimitExceeded 110 100), db, [])) \<and>
         (\<exists>fi db' started.
            UploadFile example_env example_svc scenario_db
              (example_req ''new.md'' (replicate 5 CHR ''x'')) 7 = (Inr fi, db', started) \<and>
            map w_StorageUsedBytes (db_workspaces db') = [Some 95])"
proof -
  note rejected = UploadFile_quota_rejected [OF assms, of env s]
  have passed: "\<forall>need limit. fst (UploadFile env s db req userID)
                              \<noteq> Inl (StorageLimitExceeded need limit)"
    if "\<not> w_StorageLimitBytes workspace <s projected_usage workspace db req"
    using UploadFile_quota_passed [OF assms that] by blast
  have plain: "w_StorageLimitBytes workspace <s projected_usage workspace db req \<longleftrightarrow>
             sint (w_StorageLimitBytes workspace)
               < sint (PgToInt64 (w_StorageUsedBytes workspace))
                   - sint (existing_size db (req_WorkspaceID req) (req_FilePath req))
                   + int (length (req_Content req))"
    if "- (2 ^ 63) \<le> sint (PgToInt64 (w_StorageUsedBytes workspace))
              - sint (existing_size db (req_WorkspaceID req) (req_FilePath req))
              + int (length (req_Content req))"
      "sint (PgToInt64 (w_StorageUsedBytes workspace))
              - sint (existing_size db (req_WorkspaceID req) (req_FilePath req))
              + int (length (req_Content req)) < 2 ^ 63"
      "length (req_Content req) < 2 ^ 63"
    using projected_usage_sint [OF that] by (simp add: word_sless_alt)
  have scenario_rejected:
    "UploadFile env s db req userID = (Inl (StorageLimitExceeded 110 100), db, [])"
    if "w_StorageLimitBytes workspace = 100" "w_StorageUsedBytes workspace = Some 90"
      "existing_size db (req_WorkspaceID req) (req_FilePath req) = 0"
      "length (req_Content req) = 20"
  proof -
    from that have p: "projected_usage workspace db req = 110"
      by (simp add: projected_usage_def PgToInt64_def)
    with that(1) have "w_StorageLimitBytes workspace <s projected_usage workspace db req"
      by simp
    from rejected [OF this] p that(1) show ?thesis by simp
  qed
  have ok: "\<not> isl (fst (UploadFile example_env example_svc scenario_db
                            (example_req ''new.md'' (replicate 5 CHR ''x'')) 7))"
    by code_simp
  have used: "map w_StorageUsedBytes (db_workspaces (fst (snd
                 (UploadFile example_env example_svc scenario_db
                    (example_req ''new.md'' (replicate 5 CHR ''x'')) 7)))) = [Some 95]"
    by code_simp
  obtain r db' started where
    u: "UploadFile example_env example_svc scenario_db
          (example_req ''new.md'' (replicate 5 CHR ''x'')) 7 = (r, db', started)"
    by (metis prod.collapse)
  with ok obtain fi where "r = Inr fi" by (cases r) auto
  with u used have scenario_stored: "\<exists>fi db' started.
            UploadFile example_env example_svc scenario_db
              (example_req ''new.md'' (replicate 5 CHR ''x'')) 7 = (Inr fi, db', started) \<and>
            map w_StorageUsedBytes (db_workspaces db') = [Some 95]"
    by simp
  from rejected passed plain scenario_rejected scenario_stored show ?thesis
    by blast
qed

theorem quota_precheck_witness:
  "GetWorkspaceByID scenario_db (UUIDToPg (req_WorkspaceID (example_req ''new.md'' (replicate 20 CHR ''x''))))
     = Inr (example_workspace\<lparr>w_StorageUsedBytes := Some 90\<rparr>) \<and>
   PgToUUID (w_UserID (example_workspace\<lparr>w_StorageUsedBytes := Some 90\<rparr>)) = 7 \<and>
   w_StorageLimitBytes (example_workspace\<lparr>w_StorageUsedBytes := Some 90\<rparr>)
     <s projected_usage (example_workspace\<lparr>w_StorageUsedBytes := Some 90\<rparr>) scenario_db
          (example_req ''new.md'' (replicate 20 CHR ''x'')) \<and>
   UploadFile example_env example_svc scenario_db (example_req ''new.md'' (replicate 20 CHR ''x'')) 7
     = (Inl (StorageLimitExceeded 110 100), scenario_db, []) \<and>
   \<not> w_StorageLimitBytes (example_workspace\<lparr>w_StorageUsedBytes := Some 90\<rparr>)
     <s projected_usage (example_workspace\<lparr>w_StorageUsedBytes := Some 90\<rparr>) scenario_db
          (example_req ''new.md'' (replicate 5 CHR ''x'')) \<and>
   fst (UploadFile example_env example_svc scenario_db (example_req ''new.md'' (replicate 5 CHR ''x'')) 7)
     \<noteq> Inl (StorageLimitExceeded 95 100)"
proof -
  let ?w = "example_workspace\<lparr>w_StorageUsedBytes := Some 90\<rparr>"
  have h1: "GetWorkspaceByID scenario_db
              (UUIDToPg (req_WorkspaceID (example_req ''new.md'' (replicate 20 CHR ''x'')))) = Inr ?w"
    and h1': "GetWorkspaceByID scenario_db
              (UUIDToPg (req_WorkspaceID (example_req ''new.md'' (replicate 5 CHR ''x'')))) = Inr ?w"
    by (simp_all add: GetWorkspaceByID_def scenario_db_def example_defs conv_defs)
  have h2: "PgToUUID (w_UserID ?w) = 7"
    by (simp add: example_defs conv_defs)
  have p20: "projected_usage ?w scenario_db (example_req ''new.md'' (replicate 20 CHR ''x'')) = 110"
    and p5: "projected_usage ?w scenario_db (example_req ''new.md'' (replicate 5 CHR ''x'')) = 95"
    by (simp_all add: projected_usage_def existing_size_def GetFile_query_def same_path_def
        scenario_db_def example_defs conv_defs)
  have lim: "w_StorageLimitBytes ?w = 100" by (simp add: example_defs)
  have h3: "w_StorageLimitBytes ?w <s projected_usage ?w scenario_db
              (example_req ''new.md'' (replicate 20 CHR ''x''))"
    and h4: "\<not> w_StorageLimitBytes ?w <s projected_usage ?w scenario_db
              (example_req ''new.md'' (replicate 5 CHR ''x''))"
    unfolding p20 p5 lim by simp_all
  from quota_precheck [OF h1 h2, of example_env example_svc] h3 p20 lim
  have c1: "UploadFile example_env example_svc scenario_db
              (example_req ''new.md'' (replicate 20 CHR ''x'')) 7
              = (Inl (StorageLimitExceeded 110 100), scenario_db, [])"
    by simp
  from quota_precheck [OF h1' h2, of example_env example_svc] h4
  have c2: "fst (UploadFile example_env example_svc scenario_db
                   (example_req ''new.md'' (replicate 5 CHR ''x'')) 7)
              \<noteq> Inl (StorageLimitExceeded 95 100)"
    by blast
  from h1 h2 h3 h4 c1 c2 show ?thesis by blast
qed

lemma tx_exec_base [simp]: "tx_base (snd (tx_exec env stmt arg tx)) = tx_base tx"
  by (auto simp: tx_exec_def split: sum.splits)

lemma tx_exec_base': "tx_exec env stmt arg tx = (r, tx') \<Longrightarrow> tx_base tx' = tx_base tx"
  using tx_exec_base [of env stmt arg tx] by simp

lemma same_tables_refl [simp]: "same_tables a a"
  by (simp add: same_tables_def)

lemma same_tables_status [simp]:
  "same_tables (snd (conn_exec UpdateSyncOperationStatus arg a)) b = same_tables a b"
  by (simp add: same_tables_def conn_exec_def UpdateSyncOperationStatus_def)

lemma UploadFile_tx_failure_frame:
  assumes "UploadFile_tx env s tx syncOp req h n m = (Inl e, db', g)"
  shows "same_tables db' (tx_base tx) \<and> g = []"
proof -
  have c: "same_tables db2 (tx_base t)" if "tx_Commit t = (Inl err, db2)" for t err db2
    using that by (auto simp: tx_Commit_def split: if_splits)
  have st: "same_tables d2 b = same_tables d1 b"
    if "conn_exec UpdateSyncOperationStatus arg d1 = (x, d2)" for arg d1 x d2 b
    using same_tables_status [of arg d1 b] that by simp
  from assms show ?thesis
    unfolding UploadFile_tx_def
    by (auto simp: tx_Rollback_def st split: prod.splits sum.splits
        dest!: tx_exec_base' c)
qed

lemma UploadFile_failure_frame:
  assumes "UploadFile env s db req userID = (Inl e, db', g)"
  shows "same_tables db' db \<and> g = []"
proof -
  have a: "same_tables db1 db"
    if "conn_exec CreateSyncOperation arg db = (r, db1)" for arg r db1
    using conn_exec_CreateSyncOperation_frame [OF that] by (simp add: same_tables_def)
  have b: "same_tables (tx_base tx) db1" if "conn_Begin db1 = Inr tx" for db1 tx
    using that by (auto simp: conn_Begin_def Let_def same_tables_def)
  have t: "same_tables x z" if "same_tables x y" "same_tables y z" for x y z
    using that by (simp add: same_tables_def)
  from assms show ?thesis
    unfolding UploadFile_def
    by (auto simp: Let_def split: sum.splits if_splits prod.splits
        dest!: a UploadFile_tx_failure_frame b intro: t)
qed

text \<open>
  C3. An upload that the quota check rejects leaves the database as it was: no file,
  no usage figure, no audit row and no version is written, no transaction block has
  been opened, and no metadata task is started.
\<close>

theorem rejected_upload_changes_nothing:
  assumes "UploadFile env s db req userID = (Inl (StorageLimitExceeded need limit), db', started)"
  shows "db' = db \<and> started = [] \<and>
         db_sync_operations db' = db_sync_operations db \<and> db_tx_begun db' = db_tx_begun db \<and>
         db_files db' = db_files db \<and> db_workspaces db' = db_workspaces db \<and>
         db_file_versions db' = db_file_versions db"
  using assms
  unfolding UploadFile_def conn_Begin_def
  by (auto simp: Let_def UploadFile_tx_not_quota split: prod.splits sum.splits if_splits)

theorem rejected_upload_changes_nothing_witness:
  "UploadFile example_env example_svc example_db (example_req ''a.md'' (replicate 101 CHR ''x'')) 7
     = (Inl (StorageLimitExceeded 101 100), example_db, [])"
proof -
  have "fst (UploadFile example_env example_svc example_db
               (example_req ''a.md'' (replicate 101 CHR ''x'')) 7)
          = Inl (StorageLimitExceeded 101 100)"
    by (simp add: UploadFile_def example_defs GetWorkspaceByID_def GetWorkspaceStorageUsage_def
        GetFile_query_def conv_defs Let_def)
  then obtain db' started where
    "UploadFile example_env example_svc example_db (example_req ''a.md'' (replicate 101 CHR ''x'')) 7
       = (Inl (StorageLimitExceeded 101 100), db', started)"
    by (metis prod.collapse)
  with rejected_upload_changes_nothing [OF this] show ?thesis by simp
qed

text \<open>
  C4. The file description a successful upload returns carries the byte length of the
  submitted content as its size, and as its digest the SHA-256 sum of that content in
  lower-case hexadecimal, two digits for each byte of the sum.
\<close>

theorem UploadFile_size_and_digest:
  assumes "UploadFile env s db req userID = (Inr fi, db', started)"
  shows "fi_SizeBytes fi = of_nat (length (req_Content req)) \<and>
         (length (req_Content req) < 2 ^ 63
            \<longrightarrow> sint (fi_SizeBytes fi) = int (length (req_Content req))) \<and>
         fi_ContentHash fi = Sprintf_x (sha256_Sum256 env (req_Content req)) \<and>
         length (fi_ContentHash fi) = 2 * length (sha256_Sum256 env (req_Content req)) \<and>
         set (fi_ContentHash fi) \<subseteq> set ''0123456789abcdef''"
proof -
  from UploadFile_success_tx [OF assms] obtain tx syncOp n m where
    "UploadFile_tx env s tx syncOp req (Sprintf_x (sha256_Sum256 env (req_Content req))) n m
       = (Inr fi, db', started)"
    by blast
  from UploadFile_tx_success_row [OF this] obtain row dbu where
    up: "UpsertFile (tx_work tx)
             \<lparr>uf_WorkspaceID = UUIDToPg (req_WorkspaceID req),
              uf_FilePath = req_FilePath req,
              uf_ContentHash = Sprintf_x (sha256_Sum256 env (req_Content req)),
              uf_Content = req_Content req,
              uf_SizeBytes = of_nat (length (req_Content req)),
              uf_MimeType = StringToPg m,
              uf_LastModified = TimeToPg (req_LastModified req)\<rparr> = Inr (row, dbu)"
    and fi: "fi = file_info row"
    by blast
  from UpsertFile_result [OF up] fi
  have size: "fi_SizeBytes fi = of_nat (length (req_Content req))"
    and hash: "fi_ContentHash fi = Sprintf_x (sha256_Sum256 env (req_Content req))"
    by (simp_all add: file_info_def)
  from size have "sint (fi_SizeBytes fi) = int (length (req_Content req))"
    if "length (req_Content req) < 2 ^ 63"
    using sint_of_nat_64 [OF that] by simp
  with size hash Sprintf_x_chars [of "sha256_Sum256 env (req_Content req)"] show ?thesis
    by (simp add: Sprintf_x_length)
qed

theorem UploadFile_size_and_digest_witness:
  "\<exists>fi db' started.
     UploadFile example_env example_svc example_db (example_req ''a.md'' ''X'') 7
       = (Inr fi, db', started) \<and>
     length (req_Content (example_req ''a.md'' ''X'')) < 2 ^ 63 \<and>
     fi_SizeBytes fi = 1 \<and> sint (fi_SizeBytes fi) = 1 \<and>
     fi_ContentHash fi = ''58'' \<and> length (fi_ContentHash fi) = 2"
proof -
  have len: "length (req_Content (example_req ''a.md'' ''X'')) < 2 ^ 63"
    and content: "req_Content (example_req ''a.md'' ''X'') = ''X''"
    by (simp_all add: example_req_def)
  have sum: "sha256_Sum256 example_env ''X'' = ''X''"
    by (simp add: example_env_def)
  have hex: "Sprintf_x ''X'' = ''58''"
    by code_simp
  from UploadFile_size_and_digest [OF upload_example] len
  have "fi_SizeBytes (file_info stored_file) = 1 \<and> sint (fi_SizeBytes (file_info stored_file)) = 1 \<and>
        fi_ContentHash (file_info stored_file) = ''58'' \<and>
        length (fi_ContentHash (file_info stored_file)) = 2"
    unfolding content sum hex by simp
  with upload_example len show ?thesis by blast
qed

text \<open>
  C5. Whoever is not the owner of a workspace is refused by every operation on it, at
  every path, and the database stays as it was; the three reading operations never
  change it.
\<close>

theorem non_owner_is_refused:
  assumes "GetWorkspaceByID db (UUIDToPg workspaceID) = Inr workspace"
    and "PgToUUID (w_UserID workspace) \<noteq> userID"
    and "req_WorkspaceID req = workspaceID"
  shows "UploadFile env s db req userID = (Inl AccessDenied, db, []) \<and>
         GetFile db workspaceID filePath userID = Inl AccessDenied \<and>
         GetFileContent db workspaceID filePath userID = Inl AccessDenied \<and>
         ListFiles db workspaceID userID = Inl AccessDenied \<and>
         DeleteFile env db workspaceID filePath userID = (Some AccessDenied, db)"
  using assms
  by (simp add: UploadFile_def GetFile_def GetFileContent_def ListFiles_def DeleteFile_def)

theorem non_owner_is_refused_witness:
  "GetWorkspaceByID example_db (UUIDToPg 1) = Inr example_workspace \<and>
   PgToUUID (w_UserID example_workspace) \<noteq> 8 \<and>
   UploadFile example_env example_svc example_db (example_req ''a.md'' ''X'') 8
     = (Inl AccessDenied, example_db, []) \<and>
   GetFile example_db 1 ''a.md'' 8 = Inl AccessDenied \<and>
   GetFileContent example_db 1 ''a.md'' 8 = Inl AccessDenied \<and>
   ListFiles example_db 1 8 = Inl AccessDenied \<and>
   DeleteFile example_env example_db 1 ''a.md'' 8 = (Some AccessDenied, example_db)"
proof -
  have h1: "GetWorkspaceByID example_db (UUIDToPg 1) = Inr example_workspace"
    by (simp add: GetWorkspaceByID_def example_defs conv_defs)
  have h2: "PgToUUID (w_UserID example_workspace) \<noteq> 8"
    by (simp add: example_defs conv_defs)
  have h3: "req_WorkspaceID (example_req ''a.md'' ''X'') = 1"
    by (simp add: example_defs)
  from non_owner_is_refused [OF h1 h2 h3, of example_env example_svc "''a.md''"] h1 h2
  show ?thesis by blast
qed

section \<open>Deletion\<close>

lemma DeleteFile_unfold:
  assumes "GetWorkspaceByID db (UUIDToPg workspaceID) = Inr workspace"
    and "PgToUUID (w_UserID workspace) = userID"
    and "GetFile_query db \<lparr>gf_WorkspaceID = UUIDToPg workspaceID, gf_FilePath = filePath\<rparr> = Inr row"
  shows "DeleteFile env db workspaceID filePath userID =
    (None,
     db\<lparr>db_tx_begun := Suc (db_tx_begun db),
        db_files := filter (\<lambda>f. \<not> same_path (UUIDToPg workspaceID) filePath f) (db_files db),
        db_file_versions :=
          filter (\<lambda>v. fv_FileID v \<notin> set (map f_ID
                    (filter (same_path (UUIDToPg workspaceID) filePath) (db_files db))))
            (db_file_versions db),
        db_sync_operations :=
          map (\<lambda>r. if so_FileID r \<in> set (map f_ID
                      (filter (same_path (UUIDToPg workspaceID) filePath) (db_files db)))
                    then r\<lparr>so_FileID := None\<rparr> else r) (db_sync_operations db),
        db_workspaces :=
          map (\<lambda>w. if w_ID w = UUIDToPg workspaceID
                    then w\<lparr>w_StorageUsedBytes :=
                             Int64ToPg (PgToInt64 (w_StorageUsedBytes workspace) - f_SizeBytes row),
                           w_UpdatedAt := Some (db_now db)\<rparr>
                    else w) (db_workspaces db)\<rparr>)"
  using assms
  by (simp add: DeleteFile_def conn_Begin_def tx_exec_def DeleteFile_query_def Let_def
      UpdateWorkspaceStorageUsed_def tx_Commit_def)

lemma DeleteFile_result_cases:
  "(\<exists>e. DeleteFile env db workspaceID filePath userID = (Some e, db)) \<or>
   (\<exists>workspace row.
      GetWorkspaceByID db (UUIDToPg workspaceID) = Inr workspace \<and>
      PgToUUID (w_UserID workspace) = userID \<and>
      GetFile_query db \<lparr>gf_WorkspaceID = UUIDToPg workspaceID, gf_FilePath = filePath\<rparr> = Inr row)"
  by (auto simp: DeleteFile_def split: sum.splits)

text \<open>
  C6. A deletion that succeeds has removed the file row at the path and has set the
  usage figure of the workspace to its value before minus the size of that file, in
  \<^verbatim>\<open>int64\<close>, and in the integers while the difference stays in range.
\<close>

theorem delete_reverses_accounting:
  assumes "DeleteFile env db workspaceID filePath userID = (None, db')"
  shows "\<exists>workspace row workspace'.
           GetWorkspaceByID db (UUIDToPg workspaceID) = Inr workspace \<and>
           GetFile_query db \<lparr>gf_WorkspaceID = UUIDToPg workspaceID, gf_FilePath = filePath\<rparr> = Inr row \<and>
           GetWorkspaceByID db' (UUIDToPg workspaceID) = Inr workspace' \<and>
           PgToInt64 (w_StorageUsedBytes workspace')
             = PgToInt64 (w_StorageUsedBytes workspace) - f_SizeBytes row \<and>
           (- (2 ^ 63) \<le> sint (PgToInt64 (w_StorageUsedBytes workspace)) - sint (f_SizeBytes row) \<and>
            sint (PgToInt64 (w_StorageUsedBytes workspace)) - sint (f_SizeBytes row) < 2 ^ 63 \<longrightarrow>
              sint (PgToInt64 (w_StorageUsedBytes workspace'))
                = sint (PgToInt64 (w_StorageUsedBytes workspace)) - sint (f_SizeBytes row)) \<and>
           db_files db' = filter (\<lambda>f. \<not> same_path (UUIDToPg workspaceID) filePath f) (db_files db) \<and>
           GetFile_query db' \<lparr>gf_WorkspaceID = UUIDToPg workspaceID, gf_FilePath = filePath\<rparr>
             = Inl ErrNoRows \<and>
           GetFile db' workspaceID filePath userID = Inl (FileNotFound ErrNoRows)"
proof -
  from DeleteFile_result_cases [of env db workspaceID filePath userID] assms
  obtain workspace row where
    w: "GetWorkspaceByID db (UUIDToPg workspaceID) = Inr workspace"
    and owner: "PgToUUID (w_UserID workspace) = userID"
    and row: "GetFile_query db \<lparr>gf_WorkspaceID = UUIDToPg workspaceID, gf_FilePath = filePath\<rparr> = Inr row"
    by auto
  note u = DeleteFile_unfold [OF w owner row, of env]
  let ?w' = "workspace\<lparr>w_StorageUsedBytes :=
                 Int64ToPg (PgToInt64 (w_StorageUsedBytes workspace) - f_SizeBytes row),
               w_UpdatedAt := Some (db_now db)\<rparr>"
  from u assms have files:
    "db_files db' = filter (\<lambda>f. \<not> same_path (UUIDToPg workspaceID) filePath f) (db_files db)"
    and wss: "db_workspaces db' =
          map (\<lambda>w. if w_ID w = UUIDToPg workspaceID
                    then w\<lparr>w_StorageUsedBytes :=
                             Int64ToPg (PgToInt64 (w_StorageUsedBytes workspace) - f_SizeBytes row),
                           w_UpdatedAt := Some (db_now db)\<rparr>
                    else w) (db_workspaces db)"
    by auto
  from w have "find (\<lambda>w. w_ID w = UUIDToPg workspaceID) (db_workspaces db) = Some workspace"
    by (auto simp: GetWorkspaceByID_def split: option.splits)
  with wss have w': "GetWorkspaceByID db' (UUIDToPg workspaceID) = Inr ?w'"
    by (simp add: GetWorkspaceByID_def find_workspace_update)
  have used: "PgToInt64 (w_StorageUsedBytes ?w')
                = PgToInt64 (w_StorageUsedBytes workspace) - f_SizeBytes row"
    by (simp add: conv_defs)
  have gone: "GetFile_query db' \<lparr>gf_WorkspaceID = UUIDToPg workspaceID, gf_FilePath = filePath\<rparr>
                = Inl ErrNoRows"
    by (simp add: GetFile_query_def files find_filter_not)
  have read: "GetFile db' workspaceID filePath userID = Inl (FileNotFound ErrNoRows)"
    using w' owner gone by (simp add: GetFile_def)
  have plain: "sint (PgToInt64 (w_StorageUsedBytes ?w'))
                = sint (PgToInt64 (w_StorageUsedBytes workspace)) - sint (f_SizeBytes row)"
    if "- (2 ^ 63) \<le> sint (PgToInt64 (w_StorageUsedBytes workspace)) - sint (f_SizeBytes row)"
      "sint (PgToInt64 (w_StorageUsedBytes workspace)) - sint (f_SizeBytes row) < 2 ^ 63"
    unfolding used using that by (rule sint_sub_64)
  from w row w' used plain files gone read show ?thesis
    by blast
qed

theorem delete_reverses_accounting_witness:
  "\<exists>db' workspace'.
     DeleteFile example_env stored_db 1 ''a.md'' 7 = (None, db') \<and>
     GetWorkspaceByID stored_db (UUIDToPg 1) = Inr stored_workspace \<and>
     GetFile_query stored_db \<lparr>gf_WorkspaceID = UUIDToPg 1, gf_FilePath = ''a.md''\<rparr> = Inr stored_file \<and>
     - (2 ^ 63) \<le> sint (PgToInt64 (w_StorageUsedBytes stored_workspace)) - sint (f_SizeBytes stored_file) \<and>
     sint (PgToInt64 (w_StorageUsedBytes stored_workspace)) - sint (f_SizeBytes stored_file) < 2 ^ 63 \<and>
     GetWorkspaceByID db' (UUIDToPg 1) = Inr workspace' \<and>
     PgToInt64 (w_StorageUsedBytes workspace') = 0 \<and>
     sint (PgToInt64 (w_StorageUsedBytes workspace')) = 0 \<and>
     db_files db' = [] \<and>
     GetFile db' 1 ''a.md'' 7 = Inl (FileNotFound ErrNoRows)"
proof -
  have "fst (DeleteFile example_env stored_db 1 ''a.md'' 7) = None"
    by code_simp
  then obtain db' where d: "DeleteFile example_env stored_db 1 ''a.md'' 7 = (None, db')"
    by (metis prod.collapse)
  have h1: "GetWorkspaceByID stored_db (UUIDToPg 1) = Inr stored_workspace"
    by (simp add: GetWorkspaceByID_def stored_defs example_defs conv_defs)
  have h2: "GetFile_query stored_db \<lparr>gf_WorkspaceID = UUIDToPg 1, gf_FilePath = ''a.md''\<rparr> = Inr stored_file"
    by (simp add: GetFile_query_def same_path_def stored_defs conv_defs)
  have v: "PgToInt64 (w_StorageUsedBytes stored_workspace) = 1" "f_SizeBytes stored_file = 1"
    by (simp_all add: stored_defs conv_defs)
  have fl: "filter (\<lambda>f. \<not> same_path (UUIDToPg 1) ''a.md'' f) (db_files stored_db) = []"
    by (simp add: same_path_def stored_defs conv_defs)
  from delete_reverses_accounting [OF d] h1 h2 v fl d show ?thesis
    by auto
qed

text \<open>
  C8. Deleting at a path where the workspace holds no file is an error, file not
  found, and changes nothing.
\<close>

theorem delete_missing_file_not_found:
  assumes "GetWorkspaceByID db (UUIDToPg workspaceID) = Inr workspace"
    and "PgToUUID (w_UserID workspace) = userID"
    and "\<forall>f \<in> set (db_files db). \<not> same_path (UUIDToPg workspaceID) filePath f"
  shows "DeleteFile env db workspaceID filePath userID = (Some (FileNotFound ErrNoRows), db)"
proof -
  from assms(3) have "find (same_path (UUIDToPg workspaceID) filePath) (db_files db) = None"
    by (simp add: find_None_iff)
  with assms(1,2) show ?thesis
    by (simp add: DeleteFile_def GetFile_query_def)
qed

theorem delete_missing_file_not_found_witness:
  "GetWorkspaceByID stored_db (UUIDToPg 1) = Inr stored_workspace \<and>
   PgToUUID (w_UserID stored_workspace) = 7 \<and>
   list_all (\<lambda>f. \<not> same_path (UUIDToPg 1) ''gone.txt'' f) (db_files stored_db) \<and>
   db_files stored_db = [stored_file] \<and>
   DeleteFile example_env stored_db 1 ''gone.txt'' 7 = (Some (FileNotFound ErrNoRows), stored_db)"
proof -
  have h1: "GetWorkspaceByID stored_db (UUIDToPg 1) = Inr stored_workspace"
    by (simp add: GetWorkspaceByID_def stored_defs example_defs conv_defs)
  have h2: "PgToUUID (w_UserID stored_workspace) = 7"
    by (simp add: stored_defs example_defs conv_defs)
  have h3: "\<forall>f \<in> set (db_files stored_db). \<not> same_path (UUIDToPg 1) ''gone.txt'' f"
    by (simp add: stored_defs same_path_def)
  have fs: "db_files stored_db = [stored_file]"
    by (simp add: stored_db_def)
  from delete_missing_file_not_found [OF h1 h2 h3, of example_env] h1 h2 h3 fs
  show ?thesis by (simp add: list_all_iff)
qed

section \<open>The quota invariant\<close>

lemma sum_list_map_update:
  fixes h :: "'a \<Rightarrow> int"
  assumes "distinct (map key xs)" "find (\<lambda>f. key f = p) xs = Some old" "\<And>x. key (g x) = key x"
  shows "(\<Sum>f\<leftarrow>map (\<lambda>f. if key f = p then g f else f) xs. h f)
           = (\<Sum>f\<leftarrow>xs. h f) - h old + h (g old)"
  using assms(1,2)
proof (induction xs)
  case Nil
  then show ?case by simp
next
  case (Cons x xs)
  show ?case
  proof (cases "key x = p")
    case True
    with Cons.prems have old: "old = x" and "p \<notin> key ` set xs" by auto
    then have "map (\<lambda>f. if key f = p then g f else f) xs = xs"
      by (intro map_idI) auto
    with True old show ?thesis by simp
  next
    case False
    with Cons show ?thesis by simp
  qed
qed

lemma sum_list_filter_out:
  fixes h :: "'a \<Rightarrow> int"
  assumes "distinct (map key xs)" "find (\<lambda>f. key f = p) xs = Some old"
  shows "(\<Sum>f\<leftarrow>filter (\<lambda>f. key f \<noteq> p) xs. h f) = (\<Sum>f\<leftarrow>xs. h f) - h old"
  using assms
proof (induction xs)
  case Nil
  then show ?case by simp
next
  case (Cons x xs)
  show ?case
  proof (cases "key x = p")
    case True
    with Cons.prems have old: "old = x" and "p \<notin> key ` set xs" by auto
    then have "filter (\<lambda>f. key f \<noteq> p) xs = xs"
      by (intro filter_True) auto
    with True old show ?thesis by simp
  next
    case False
    with Cons show ?thesis by simp
  qed
qed

lemma member_le_sum_list_int:
  fixes h :: "'a \<Rightarrow> int"
  assumes "\<forall>x \<in> set xs. 0 \<le> h x" "y \<in> set xs"
  shows "h y \<le> (\<Sum>x\<leftarrow>xs. h x)"
  using assms
proof (induction xs)
  case Nil
  then show ?case by simp
next
  case (Cons x xs)
  have "0 \<le> (\<Sum>x\<leftarrow>xs. h x)"
    using Cons.prems(1) by (intro sum_list_nonneg) auto
  with Cons show ?case by auto
qed

lemma find_filter_conj: "find P (filter Q xs) = find (\<lambda>x. Q x \<and> P x) xs"
  by (induction xs) auto

lemma find_map_other:
  assumes "\<And>x. Q x \<Longrightarrow> \<not> P x" "\<And>x. Q x \<Longrightarrow> \<not> P (g x)"
  shows "find P (map (\<lambda>x. if Q x then g x else x) xs) = find P xs"
  using assms by (induction xs) auto


lemma filter_map_if:
  assumes "\<And>x. Q (g x) = Q x"
  shows "filter Q (map (\<lambda>x. if P x then g x else x) xs)
           = map (\<lambda>x. if P x then g x else x) (filter Q xs)"
  using assms by (induction xs) auto

lemma GetFile_query_workspace_files:
  "GetFile_query db \<lparr>gf_WorkspaceID = w, gf_FilePath = p\<rparr> =
     (case find (\<lambda>f. f_FilePath f = p) (workspace_files db w) of
        None \<Rightarrow> Inl ErrNoRows | Some f \<Rightarrow> Inr f)"
proof -
  have "same_path w p = (\<lambda>f. f_WorkspaceID f = w \<and> f_FilePath f = p)"
    by (auto simp: same_path_def)
  then show ?thesis
    by (simp add: GetFile_query_def workspace_files_def find_filter_conj)
qed

lemma UpsertFile_workspace_files_other:
  assumes "UpsertFile dbm arg = Inr (row, dbu)" "uf_WorkspaceID arg \<noteq> w"
  shows "workspace_files dbu w = workspace_files dbm w"
proof -
  have "filter (\<lambda>f. f_WorkspaceID f = w)
          (map (\<lambda>f. if same_path (uf_WorkspaceID arg) (uf_FilePath arg) f
                     then excluded_row dbm arg f else f) xs)
        = filter (\<lambda>f. f_WorkspaceID f = w) xs" for xs
    using assms(2) by (induction xs) (auto simp: same_path_def excluded_row_def)
  with assms show ?thesis
    by (auto simp: UpsertFile_def workspace_files_def inserted_row_def
        split: if_splits option.splits)
qed

lemma UpsertFile_workspace_files_same:
  assumes "UpsertFile dbm arg = Inr (row, dbu)"
  shows "workspace_files dbu (uf_WorkspaceID arg) =
           (case find (\<lambda>f. f_FilePath f = uf_FilePath arg) (workspace_files dbm (uf_WorkspaceID arg)) of
              None \<Rightarrow> workspace_files dbm (uf_WorkspaceID arg) @ [row]
            | Some old \<Rightarrow>
                map (\<lambda>f. if f_FilePath f = uf_FilePath arg then excluded_row dbm arg f else f)
                  (workspace_files dbm (uf_WorkspaceID arg)))"
proof -
  let ?w = "uf_WorkspaceID arg" and ?p = "uf_FilePath arg"
  have sp: "same_path ?w ?p = (\<lambda>f. f_WorkspaceID f = ?w \<and> f_FilePath f = ?p)"
    by (auto simp: same_path_def)
  have fnd: "find (\<lambda>f. f_FilePath f = ?p) (workspace_files dbm ?w) = find (same_path ?w ?p) (db_files dbm)"
    by (simp add: workspace_files_def find_filter_conj sp)
  have upd: "filter (\<lambda>f. f_WorkspaceID f = ?w)
               (map (\<lambda>f. if same_path ?w ?p f then excluded_row dbm arg f else f) xs)
             = map (\<lambda>f. if f_FilePath f = ?p then excluded_row dbm arg f else f)
                 (filter (\<lambda>f. f_WorkspaceID f = ?w) xs)" for xs
    by (induction xs) (auto simp: same_path_def excluded_row_def)
  from assms show ?thesis
    unfolding fnd
    by (auto simp: UpsertFile_def workspace_files_def upd inserted_row_def
        split: if_splits option.splits)
qed

lemma quota_inv_cong:
  assumes "GetWorkspaceByID db' (UUIDToPg w) = GetWorkspaceByID db (UUIDToPg w)"
    and "workspace_files db' (UUIDToPg w) = workspace_files db (UUIDToPg w)"
  shows "quota_inv w L db' = quota_inv w L db"
  using assms by (simp add: quota_inv_def actual_storage_used_def)

lemma same_tables_quota_inv:
  "same_tables db' db \<Longrightarrow> quota_inv w L db' = quota_inv w L db"
  by (rule quota_inv_cong) (simp_all add: same_tables_def GetWorkspaceByID_def workspace_files_def)


lemma workspace_files_cong: "db_files a = db_files b \<Longrightarrow> workspace_files a w = workspace_files b w"
  by (simp add: workspace_files_def)

lemma quota_inv_upload_same:
  assumes inv: "quota_inv wid L db"
    and fits: "int (length (req_Content req)) + max 0 (sint L) < 2 ^ 63"
    and same: "req_WorkspaceID req = wid"
    and up: "UploadFile env s db req userID = (Inr fi, db', g)"
  shows "quota_inv wid L db'"
proof (rule UploadFile_success_effect [OF up])
  fix workspace dbm row dbu
  let ?W = "UUIDToPg wid" and ?p = "req_FilePath req"
  let ?xs = "workspace_files db ?W"
  let ?h = "\<lambda>f. sint (f_SizeBytes f)"
  let ?n = "length (req_Content req)"
  assume w: "GetWorkspaceByID db (UUIDToPg (req_WorkspaceID req)) = Inr workspace"
    and quota: "\<not> w_StorageLimitBytes workspace <s projected_usage workspace db req"
    and m: "db_files dbm = db_files db"
    and upsert: "UpsertFile dbm (upsert_params env req) = Inr (row, dbu)"
    and files: "db_files db' = db_files dbu"
    and wss: "db_workspaces db' =
       map (\<lambda>w. if w_ID w = UUIDToPg (req_WorkspaceID req)
                 then w\<lparr>w_StorageUsedBytes := Int64ToPg (projected_usage workspace db req),
                        w_UpdatedAt := Some (db_now db)\<rparr>
                 else w) (db_workspaces db)"
  from inv w same have lim: "w_StorageLimitBytes workspace = L"
    and used: "sint (PgToInt64 (w_StorageUsedBytes workspace)) = (\<Sum>f\<leftarrow>?xs. ?h f)"
    and dist: "distinct (map f_FilePath ?xs)"
    and nonneg: "\<forall>f \<in> set ?xs. 0 \<le> ?h f"
    and bound: "(\<Sum>f\<leftarrow>?xs. ?h f) \<le> max 0 (sint L)"
    by (auto simp: quota_inv_def actual_storage_used_def)
  have sum0: "0 \<le> (\<Sum>f\<leftarrow>?xs. ?h f)"
    using nonneg by (intro sum_list_nonneg) auto
  from fits have "int ?n < 2 ^ 63" by simp
  then have "signed_take_bit 63 (int ?n) = int ?n"
    by (intro signed_take_bit_int_eq_self) simp_all
  then have sn: "sint (of_nat ?n :: int64) = int ?n" by (simp add: signed_of_nat)
  have par: "uf_WorkspaceID (upsert_params env req) = ?W" "uf_FilePath (upsert_params env req) = ?p"
    by (simp_all add: upsert_params_def same)
  from UpsertFile_result [OF upsert] have row: "f_FilePath row = ?p" "f_SizeBytes row = of_nat ?n"
    by (simp_all add: upsert_params_def)
  have ex_size: "f_SizeBytes (excluded_row dbm (upsert_params env req) f) = of_nat ?n"
    and ex_path: "f_FilePath (excluded_row dbm (upsert_params env req) f) = f_FilePath f" for f
    by (simp_all add: excluded_row_def upsert_params_def)
  have xs_m: "workspace_files dbm ?W = ?xs"
    using m by (rule workspace_files_cong)
  have xs': "workspace_files db' ?W =
           (case find (\<lambda>f. f_FilePath f = ?p) ?xs of
              None \<Rightarrow> ?xs @ [row]
            | Some old \<Rightarrow>
                map (\<lambda>f. if f_FilePath f = ?p then excluded_row dbm (upsert_params env req) f else f) ?xs)"
    using UpsertFile_workspace_files_same [OF upsert] workspace_files_cong [OF files, of ?W]
    unfolding par xs_m by simp
  have cur: "existing_size db wid ?p =
           (case find (\<lambda>f. f_FilePath f = ?p) ?xs of None \<Rightarrow> 0 | Some f \<Rightarrow> f_SizeBytes f)"
    by (simp add: existing_size_def GetFile_query_workspace_files split: option.splits)
  from w same have "find (\<lambda>w. w_ID w = ?W) (db_workspaces db) = Some workspace"
    by (auto simp: GetWorkspaceByID_def split: option.splits)
  with wss same have w': "GetWorkspaceByID db' ?W =
      Inr (workspace\<lparr>w_StorageUsedBytes := Int64ToPg (projected_usage workspace db req),
                     w_UpdatedAt := Some (db_now db)\<rparr>)"
    by (simp add: GetWorkspaceByID_def find_workspace_update)
  have goal: "sint (projected_usage workspace db req) = (\<Sum>f\<leftarrow>workspace_files db' ?W. ?h f) \<and>
              distinct (map f_FilePath (workspace_files db' ?W)) \<and>
              (\<forall>f \<in> set (workspace_files db' ?W). 0 \<le> ?h f)"
  proof (cases "find (\<lambda>f. f_FilePath f = ?p) ?xs")
    case None
    then have cur0: "existing_size db wid ?p = 0" by (simp add: cur)
    from None have fresh: "?p \<notin> set (map f_FilePath ?xs)"
      by (auto simp: find_None_iff)
    from None xs' have xs'': "workspace_files db' ?W = ?xs @ [row]" by simp
    have "sint (projected_usage workspace db req) =
            sint (PgToInt64 (w_StorageUsedBytes workspace)) - sint (0 :: int64) + sint (of_nat ?n :: int64)"
      unfolding projected_usage_def same cur0
      using used sum0 bound fits sn by (intro sint_sub_add_64) simp_all
    with used sn have "sint (projected_usage workspace db req) = (\<Sum>f\<leftarrow>?xs. ?h f) + int ?n"
      by simp
    with xs'' row dist fresh nonneg sn show ?thesis by auto
  next
    case (Some old)
    then have cur1: "existing_size db wid ?p = f_SizeBytes old" by (simp add: cur)
    from Some have old: "old \<in> set ?xs" by (auto simp: find_Some_iff in_set_conv_nth)
    with nonneg have old0: "0 \<le> ?h old" by blast
    from member_le_sum_list_int [of ?xs ?h old] nonneg old
    have old_le: "?h old \<le> (\<Sum>f\<leftarrow>?xs. ?h f)" by blast
    from Some xs' have xs'': "workspace_files db' ?W =
        map (\<lambda>f. if f_FilePath f = ?p then excluded_row dbm (upsert_params env req) f else f) ?xs"
      by simp
    have "sint (projected_usage workspace db req) =
            sint (PgToInt64 (w_StorageUsedBytes workspace)) - sint (f_SizeBytes old) + sint (of_nat ?n :: int64)"
      unfolding projected_usage_def same cur1
      using used old0 old_le bound fits sn by (intro sint_sub_add_64) simp_all
    moreover have "(\<Sum>f\<leftarrow>workspace_files db' ?W. ?h f) = (\<Sum>f\<leftarrow>?xs. ?h f) - ?h old
                     + ?h (excluded_row dbm (upsert_params env req) old)"
      unfolding xs'' using dist Some ex_path by (rule sum_list_map_update)
    moreover have "map f_FilePath (workspace_files db' ?W) = map f_FilePath ?xs"
      unfolding xs'' by (simp add: ex_path comp_def if_distrib cong: if_cong)
    moreover have "\<forall>f \<in> set (workspace_files db' ?W). 0 \<le> ?h f"
      unfolding xs'' using nonneg sn by (auto simp: ex_size)
    ultimately show ?thesis using used sn dist by (simp add: ex_size)
  qed
  from quota lim have "sint (projected_usage workspace db req) \<le> sint L"
    by (simp add: word_sless_alt)
  with goal w' lim show "quota_inv wid L db'"
    by (auto simp: quota_inv_def actual_storage_used_def conv_defs)
qed


lemma quota_inv_upload_other:
  assumes inv: "quota_inv wid L db"
    and other: "req_WorkspaceID req \<noteq> wid"
    and up: "UploadFile env s db req userID = (Inr fi, db', g)"
  shows "quota_inv wid L db'"
proof (rule UploadFile_success_effect [OF up])
  fix workspace dbm row dbu
  let ?W = "UUIDToPg wid"
  assume m: "db_files dbm = db_files db"
    and upsert: "UpsertFile dbm (upsert_params env req) = Inr (row, dbu)"
    and files: "db_files db' = db_files dbu"
    and wss: "db_workspaces db' =
       map (\<lambda>w. if w_ID w = UUIDToPg (req_WorkspaceID req)
                 then w\<lparr>w_StorageUsedBytes := Int64ToPg (projected_usage workspace db req),
                        w_UpdatedAt := Some (db_now db)\<rparr>
                 else w) (db_workspaces db)"
  from other have ne: "uf_WorkspaceID (upsert_params env req) \<noteq> ?W"
    by (simp add: upsert_params_def UUIDToPg_def)
  have "workspace_files db' ?W = workspace_files db ?W"
    using UpsertFile_workspace_files_other [OF upsert ne]
      workspace_files_cong [OF files, of ?W] workspace_files_cong [OF m, of ?W]
    by simp
  moreover have "GetWorkspaceByID db' ?W = GetWorkspaceByID db ?W"
    unfolding GetWorkspaceByID_def wss using other
    by (subst find_map_other) (simp_all add: UUIDToPg_def)
  ultimately have "quota_inv wid L db' = quota_inv wid L db"
    using quota_inv_cong [of db' wid db L] by blast
  with inv show "quota_inv wid L db'" by simp
qed

lemma quota_inv_upload:
  assumes inv: "quota_inv wid L db"
    and fits: "req_WorkspaceID req = wid \<longrightarrow> int (length (req_Content req)) + max 0 (sint L) < 2 ^ 63"
  shows "quota_inv wid L (fst (snd (UploadFile env s db req userID)))"
proof -
  obtain r db' g where u: "UploadFile env s db req userID = (r, db', g)"
    by (metis prod.collapse)
  show ?thesis
  proof (cases r)
    case (Inl e)
    with u have "UploadFile env s db req userID = (Inl e, db', g)" by simp
    from UploadFile_failure_frame [OF this] have "same_tables db' db" by blast
    from same_tables_quota_inv [OF this, of wid L] inv u show ?thesis by simp
  next
    case (Inr fi)
    with u have up: "UploadFile env s db req userID = (Inr fi, db', g)" by simp
    show ?thesis
    proof (cases "req_WorkspaceID req = wid")
      case True
      with fits quota_inv_upload_same [OF inv _ True up] u show ?thesis by simp
    next
      case False
      from quota_inv_upload_other [OF inv False up] u show ?thesis by simp
    qed
  qed
qed

lemma quota_inv_delete:
  assumes inv: "quota_inv wid L db"
  shows "quota_inv wid L (snd (DeleteFile env db workspaceID filePath userID))"
proof -
  from DeleteFile_result_cases [of env db workspaceID filePath userID]
  show ?thesis
  proof (elim disjE exE conjE)
    fix e assume "DeleteFile env db workspaceID filePath userID = (Some e, db)"
    with inv show ?thesis by simp
  next
    fix workspace row
    let ?V = "UUIDToPg workspaceID" and ?W = "UUIDToPg wid"
    let ?db' = "snd (DeleteFile env db workspaceID filePath userID)"
    let ?h = "\<lambda>f. sint (f_SizeBytes f)"
    assume w: "GetWorkspaceByID db ?V = Inr workspace"
      and owner: "PgToUUID (w_UserID workspace) = userID"
      and row: "GetFile_query db \<lparr>gf_WorkspaceID = ?V, gf_FilePath = filePath\<rparr> = Inr row"
    note u = DeleteFile_unfold [OF w owner row, of env]
    have files: "db_files ?db' = filter (\<lambda>f. \<not> same_path ?V filePath f) (db_files db)"
      and wss: "db_workspaces ?db' =
          map (\<lambda>w. if w_ID w = ?V
                    then w\<lparr>w_StorageUsedBytes :=
                             Int64ToPg (PgToInt64 (w_StorageUsedBytes workspace) - f_SizeBytes row),
                           w_UpdatedAt := Some (db_now db)\<rparr>
                    else w) (db_workspaces db)"
      unfolding u by simp_all
    show ?thesis
    proof (cases "workspaceID = wid")
      case False
      have "workspace_files ?db' ?W = workspace_files db ?W"
        unfolding workspace_files_def files using False
        by (auto simp: same_path_def UUIDToPg_def intro: filter_cong)
      moreover have "GetWorkspaceByID ?db' ?W = GetWorkspaceByID db ?W"
        unfolding GetWorkspaceByID_def wss using False
        by (subst find_map_other) (simp_all add: UUIDToPg_def)
      ultimately have "quota_inv wid L ?db' = quota_inv wid L db"
        using quota_inv_cong [of ?db' wid db L] by blast
      with inv show ?thesis by simp
    next
      case True
      let ?xs = "workspace_files db ?W"
      from w True have ww: "GetWorkspaceByID db ?W = Inr workspace" by simp
      from row True have rr: "GetFile_query db \<lparr>gf_WorkspaceID = ?W, gf_FilePath = filePath\<rparr> = Inr row"
        by simp
      from inv ww have lim: "w_StorageLimitBytes workspace = L"
        and used: "sint (PgToInt64 (w_StorageUsedBytes workspace)) = (\<Sum>f\<leftarrow>?xs. ?h f)"
        and dist: "distinct (map f_FilePath ?xs)"
        and nonneg: "\<forall>f \<in> set ?xs. 0 \<le> ?h f"
        and bound: "(\<Sum>f\<leftarrow>?xs. ?h f) \<le> max 0 (sint L)"
        by (auto simp: quota_inv_def actual_storage_used_def)
      from rr have fnd: "find (\<lambda>f. f_FilePath f = filePath) ?xs = Some row"
        by (auto simp: GetFile_query_workspace_files split: option.splits)
      then have mem: "row \<in> set ?xs" by (auto simp: find_Some_iff in_set_conv_nth)
      with nonneg have row0: "0 \<le> ?h row" by blast
      from member_le_sum_list_int [of ?xs ?h row] nonneg mem
      have row_le: "?h row \<le> (\<Sum>f\<leftarrow>?xs. ?h f)" by blast
      have xs': "workspace_files ?db' ?W = filter (\<lambda>f. f_FilePath f \<noteq> filePath) ?xs"
        unfolding workspace_files_def files
        by (auto simp: same_path_def True intro: filter_cong)
      have sum': "(\<Sum>f\<leftarrow>workspace_files ?db' ?W. ?h f) = (\<Sum>f\<leftarrow>?xs. ?h f) - ?h row"
        unfolding xs' using dist fnd by (rule sum_list_filter_out)
      have sub: "sint (PgToInt64 (w_StorageUsedBytes workspace) - f_SizeBytes row)
                   = sint (PgToInt64 (w_StorageUsedBytes workspace)) - ?h row"
        using used row0 row_le sint_less [of "PgToInt64 (w_StorageUsedBytes workspace)"]
        by (intro sint_sub_64) simp_all
      from ww have "find (\<lambda>w. w_ID w = ?W) (db_workspaces db) = Some workspace"
        by (auto simp: GetWorkspaceByID_def split: option.splits)
      with wss True have w': "GetWorkspaceByID ?db' ?W =
          Inr (workspace\<lparr>w_StorageUsedBytes :=
                   Int64ToPg (PgToInt64 (w_StorageUsedBytes workspace) - f_SizeBytes row),
                 w_UpdatedAt := Some (db_now db)\<rparr>)"
        by (simp add: GetWorkspaceByID_def find_workspace_update)
      have "distinct (map f_FilePath (workspace_files ?db' ?W))"
        unfolding xs' using dist by (simp add: distinct_map_filter)
      moreover have "\<forall>f \<in> set (workspace_files ?db' ?W). 0 \<le> ?h f"
        unfolding xs' using nonneg by simp
      ultimately show ?thesis
        using w' lim sum' sub used bound row0
        by (auto simp: quota_inv_def actual_storage_used_def conv_defs)
    qed
  qed
qed

lemma quota_inv_run:
  assumes "quota_inv wid L db"
    and "\<forall>req userID. Upload req userID \<in> set ops \<longrightarrow> req_WorkspaceID req = wid \<longrightarrow>
           int (length (req_Content req)) + max 0 (sint L) < 2 ^ 63"
  shows "quota_inv wid L (run_operations env s db ops)"
  using assms
proof (induction ops arbitrary: db)
  case Nil
  then show ?case by (simp add: run_operations_def)
next
  case (Cons op ops)
  have step: "quota_inv wid L (apply_operation env s db op)"
  proof (cases op)
    case (Upload req userID)
    with Cons.prems(2) have "req_WorkspaceID req = wid \<longrightarrow>
           int (length (req_Content req)) + max 0 (sint L) < 2 ^ 63"
      by (simp only: list.set) blast
    from quota_inv_upload [OF Cons.prems(1) this] Upload show ?thesis by simp
  next
    case (Delete workspaceID filePath userID)
    with Cons.prems(1) show ?thesis by (simp add: quota_inv_delete)
  qed
  have rest: "\<forall>req userID. Upload req userID \<in> set ops \<longrightarrow> req_WorkspaceID req = wid \<longrightarrow>
           int (length (req_Content req)) + max 0 (sint L) < 2 ^ 63"
    using Cons.prems(2) by (simp only: list.set) blast
  from Cons.IH [OF step rest] show ?case
    by (simp add: run_operations_def)
qed

text \<open>
  C1. Start from a workspace with no file and a usage figure of 0, and run any sequence
  of uploads and deletions, by any callers and on any workspaces, in which no upload to
  this workspace is so large that limit plus content length leaves the range of
  \<^verbatim>\<open>int64\<close>. After each operation the usage figure of the workspace is the sum of the
  sizes of the files stored in it.
\<close>

theorem storage_used_equals_sum_of_sizes:
  assumes "GetWorkspaceByID db (UUIDToPg workspaceID) = Inr workspace"
    and "w_StorageUsedBytes workspace = Some 0"
    and "workspace_files db (UUIDToPg workspaceID) = []"
    and "\<forall>req userID. Upload req userID \<in> set ops \<longrightarrow> req_WorkspaceID req = workspaceID \<longrightarrow>
           int (length (req_Content req)) + max 0 (sint (w_StorageLimitBytes workspace)) < 2 ^ 63"
  shows "\<forall>k \<le> length ops.
           storage_used_is_sum (run_operations env s db (take k ops)) workspaceID"
proof (intro allI impI)
  fix k assume "k \<le> length ops"
  from assms(1-3) have inv: "quota_inv workspaceID (w_StorageLimitBytes workspace) db"
    by (simp add: quota_inv_def actual_storage_used_def conv_defs)
  have "\<forall>req userID. Upload req userID \<in> set (take k ops) \<longrightarrow> req_WorkspaceID req = workspaceID \<longrightarrow>
           int (length (req_Content req)) + max 0 (sint (w_StorageLimitBytes workspace)) < 2 ^ 63"
    using assms(4) in_set_takeD [of _ k ops] by blast
  from quota_inv_run [OF inv this, of env s]
  show "storage_used_is_sum (run_operations env s db (take k ops)) workspaceID"
    by (auto simp: quota_inv_def storage_used_is_sum_def)
qed

theorem storage_used_equals_sum_of_sizes_witness:
  "GetWorkspaceByID example_db (UUIDToPg 1) = Inr example_workspace \<and>
   w_StorageUsedBytes example_workspace = Some 0 \<and>
   workspace_files example_db (UUIDToPg 1) = [] \<and>
   list_all (\<lambda>op. case op of
                Upload req userID \<Rightarrow>
                  int (length (req_Content req)) + max 0 (sint (w_StorageLimitBytes example_workspace))
                    < 2 ^ 63
              | Delete workspaceID filePath userID \<Rightarrow> True) example_ops \<and>
   list_all (\<lambda>k. storage_used_is_sum
                   (run_operations example_env example_svc example_db (take k example_ops)) 1)
     [0, 1, 2, 3, 4, 5, 6] \<and>
   storage_used_is_sum (run_operations example_env example_svc example_db example_ops) 1 \<and>
   actual_storage_used (run_operations example_env example_svc example_db example_ops) (UUIDToPg 1) = 5"
proof -
  have h1: "GetWorkspaceByID example_db (UUIDToPg 1) = Inr example_workspace"
    by (simp add: GetWorkspaceByID_def example_defs conv_defs)
  have h2: "w_StorageUsedBytes example_workspace = Some 0"
    by (simp add: example_defs)
  have h3: "workspace_files example_db (UUIDToPg 1) = []"
    by (simp add: workspace_files_def example_defs)
  have sizes: "list_all (\<lambda>op. case op of
                Upload req userID \<Rightarrow>
                  int (length (req_Content req)) + max 0 (sint (w_StorageLimitBytes example_workspace))
                    < 2 ^ 63
              | Delete workspaceID filePath userID \<Rightarrow> True) example_ops"
    by (simp add: example_ops_def example_defs)
  then have h4: "\<forall>req userID. Upload req userID \<in> set example_ops \<longrightarrow> req_WorkspaceID req = 1 \<longrightarrow>
      int (length (req_Content req)) + max 0 (sint (w_StorageLimitBytes example_workspace)) < 2 ^ 63"
    by (auto simp: list_all_iff split: operation.splits)
  have len: "length example_ops = 6"
    by (simp add: example_ops_def)
  note every = storage_used_equals_sum_of_sizes [OF h1 h2 h3 h4, of example_env example_svc]
  have step: "storage_used_is_sum
                (run_operations example_env example_svc example_db (take k example_ops)) 1"
    if "k \<le> 6" for k
    using every [rule_format, of k] that len by linarith
  from step [of 0] step [of 1] step [of 2] step [of 3] step [of 4] step [of 5] step [of 6]
  have steps: "list_all (\<lambda>k. storage_used_is_sum
                   (run_operations example_env example_svc example_db (take k example_ops)) 1)
     [0, 1, 2, 3, 4, 5, 6]"
    by simp
  from every have last: "storage_used_is_sum (run_operations example_env example_svc example_db example_ops) 1"
    by (metis order_refl take_all)
  have five: "actual_storage_used (run_operations example_env example_svc example_db example_ops) (UUIDToPg 1) = 5"
    by code_simp
  from h1 h2 h3 sizes steps last five show ?thesis by blast
qed

section \<open>Reading back and version history\<close>

lemma find_map_preserve:
  assumes "\<And>x. P (g x) = P x"
  shows "find P (map g xs) = map_option g (find P xs)"
  using assms by (induction xs) auto

lemma find_append_old: "find P xs = Some x \<Longrightarrow> find P (xs @ ys) = Some x"
  by (induction xs) (auto split: if_splits)



text \<open>An upsert keeps every row that was there, with its id.\<close>

lemma UpsertFile_keeps_row:
  assumes "UpsertFile dbm arg = Inr (row, dbu)"
    and "find (same_path w p) (db_files dbm) = Some old"
  shows "\<exists>new. find (same_path w p) (db_files dbu) = Some new \<and> f_ID new = f_ID old"
proof (cases "find (same_path (uf_WorkspaceID arg) (uf_FilePath arg)) (db_files dbm)")
  case None
  with assms show ?thesis
    by (auto simp: UpsertFile_def find_append_old split: if_splits)
next
  case (Some hit)
  let ?g = "\<lambda>f. if same_path (uf_WorkspaceID arg) (uf_FilePath arg) f then excluded_row dbm arg f else f"
  have "same_path w p (?g x) = same_path w p x" for x by simp
  then have "find (same_path w p) (map ?g (db_files dbm)) = map_option ?g (find (same_path w p) (db_files dbm))"
    by (rule find_map_preserve)
  moreover have "f_ID (?g old) = f_ID old" by (simp add: excluded_row_def)
  ultimately show ?thesis using assms Some
    by (auto simp: UpsertFile_def split: if_splits)
qed












lemma has_version_one_iff:
  "has_version_one db w p \<longleftrightarrow>
     (\<exists>row. find (same_path (UUIDToPg w) p) (db_files db) = Some row \<and>
        (\<exists>v \<in> set (db_file_versions db). fv_FileID v = f_ID row \<and> fv_VersionNumber v = 1))"
  by (auto simp: has_version_one_def GetFile_query_def split: option.splits)

lemma upload_version_facts:
  assumes "UploadFile env s db req userID = (Inr fi, db', started)"
  shows "\<exists>row. GetFile_query db' \<lparr>gf_WorkspaceID = UUIDToPg (req_WorkspaceID req),
                   gf_FilePath = req_FilePath req\<rparr> = Inr row \<and>
           fi = file_info row \<and>
           (\<exists>v \<in> set (db_file_versions db'). fv_FileID v = f_ID row \<and> fv_VersionNumber v = 1) \<and>
           (\<forall>v \<in> set (db_file_versions db').
              v \<in> set (db_file_versions db) \<or>
              (fv_FileID v = f_ID row \<and> fv_VersionNumber v = 1 \<and>
               fv_ContentHash v = Sprintf_x (sha256_Sum256 env (req_Content req)) \<and>
               fv_Content v = req_Content req)) \<and>
           (pg_aborts_failed_block env \<longrightarrow>
              (\<exists>v. db_file_versions db' = db_file_versions db @ [v] \<and>
                 fv_FileID v = f_ID row \<and> fv_VersionNumber v = 1 \<and>
                 fv_ContentHash v = Sprintf_x (sha256_Sum256 env (req_Content req)) \<and>
                 fv_Content v = req_Content req))"
proof (rule UploadFile_success_effect [OF assms])
  fix workspace dbm row dbu
  assume upsert: "UpsertFile dbm (upsert_params env req) = Inr (row, dbu)"
    and fi: "fi = file_info row"
    and files: "db_files db' = db_files dbu"
    and vers: "(\<exists>v. db_file_versions db' = db_file_versions db @ [v] \<and>
          fv_FileID v = f_ID row \<and> fv_VersionNumber v = 1 \<and>
          fv_ContentHash v = Sprintf_x (sha256_Sum256 env (req_Content req)) \<and>
          fv_Content v = req_Content req) \<or>
     (\<not> pg_aborts_failed_block env \<and> db_file_versions db' = db_file_versions db \<and>
      (\<exists>v \<in> set (db_file_versions db). fv_FileID v = f_ID row \<and> fv_VersionNumber v = 1))"
  from UpsertFile_find [OF upsert] files
  have row: "GetFile_query db' \<lparr>gf_WorkspaceID = UUIDToPg (req_WorkspaceID req),
               gf_FilePath = req_FilePath req\<rparr> = Inr row"
    by (simp add: GetFile_query_def upsert_params_def)
  from vers have "(\<exists>v \<in> set (db_file_versions db'). fv_FileID v = f_ID row \<and> fv_VersionNumber v = 1) \<and>
           (\<forall>v \<in> set (db_file_versions db').
              v \<in> set (db_file_versions db) \<or>
              (fv_FileID v = f_ID row \<and> fv_VersionNumber v = 1 \<and>
               fv_ContentHash v = Sprintf_x (sha256_Sum256 env (req_Content req)) \<and>
               fv_Content v = req_Content req)) \<and>
           (pg_aborts_failed_block env \<longrightarrow>
              (\<exists>v. db_file_versions db' = db_file_versions db @ [v] \<and>
                 fv_FileID v = f_ID row \<and> fv_VersionNumber v = 1 \<and>
                 fv_ContentHash v = Sprintf_x (sha256_Sum256 env (req_Content req)) \<and>
                 fv_Content v = req_Content req))"
    by (elim disjE exE conjE) auto
  with row fi show ?thesis by blast
qed

lemma upload_keeps_version_one:
  assumes "has_version_one db w p"
  shows "has_version_one (fst (snd (UploadFile env s db req userID))) w p"
proof -
  obtain r db' g where u: "UploadFile env s db req userID = (r, db', g)"
    by (metis prod.collapse)
  from assms obtain old v where
    old: "find (same_path (UUIDToPg w) p) (db_files db) = Some old"
    and v: "v \<in> set (db_file_versions db)" "fv_FileID v = f_ID old" "fv_VersionNumber v = 1"
    by (auto simp: has_version_one_iff)
  have "has_version_one db' w p"
  proof (cases r)
    case (Inl e)
    with u have "UploadFile env s db req userID = (Inl e, db', g)" by simp
    from UploadFile_failure_frame [OF this] assms show ?thesis
      by (simp add: same_tables_def has_version_one_iff)
  next
    case (Inr fi)
    with u have up: "UploadFile env s db req userID = (Inr fi, db', g)" by simp
    show ?thesis
    proof (rule UploadFile_success_effect [OF up])
      fix workspace dbm row dbu
      assume m: "db_files dbm = db_files db"
        and upsert: "UpsertFile dbm (upsert_params env req) = Inr (row, dbu)"
        and files: "db_files db' = db_files dbu"
        and vers: "(\<exists>v. db_file_versions db' = db_file_versions db @ [v] \<and>
          fv_FileID v = f_ID row \<and> fv_VersionNumber v = 1 \<and>
          fv_ContentHash v = Sprintf_x (sha256_Sum256 env (req_Content req)) \<and>
          fv_Content v = req_Content req) \<or>
         (\<not> pg_aborts_failed_block env \<and> db_file_versions db' = db_file_versions db \<and>
          (\<exists>v \<in> set (db_file_versions db). fv_FileID v = f_ID row \<and> fv_VersionNumber v = 1))"
      from old m have "find (same_path (UUIDToPg w) p) (db_files dbm) = Some old" by simp
      from UpsertFile_keeps_row [OF upsert this] files obtain new where
        new: "find (same_path (UUIDToPg w) p) (db_files db') = Some new" "f_ID new = f_ID old"
        by auto
      from vers v(1) have "v \<in> set (db_file_versions db')" by auto
      with new v(2,3) show ?thesis
        by (auto simp: has_version_one_iff)
    qed
  qed
  with u show ?thesis by simp
qed

lemma versions_stay_one:
  assumes "\<forall>v \<in> set (db_file_versions db). fv_VersionNumber v = 1"
  shows "\<forall>v \<in> set (db_file_versions (apply_operation env s db op)). fv_VersionNumber v = 1"
proof (cases op)
  case (Upload req userID)
  obtain r db' g where u: "UploadFile env s db req userID = (r, db', g)"
    by (metis prod.collapse)
  have "\<forall>v \<in> set (db_file_versions db'). fv_VersionNumber v = 1"
  proof (cases r)
    case (Inl e)
    with u have "UploadFile env s db req userID = (Inl e, db', g)" by simp
    from UploadFile_failure_frame [OF this] assms show ?thesis
      by (simp add: same_tables_def)
  next
    case (Inr fi)
    with u have "UploadFile env s db req userID = (Inr fi, db', g)" by simp
    from upload_version_facts [OF this] assms show ?thesis by blast
  qed
  with u Upload show ?thesis by simp
next
  case (Delete workspaceID filePath userID)
  from DeleteFile_result_cases [of env db workspaceID filePath userID]
  show ?thesis
  proof (elim disjE exE conjE)
    fix e assume "DeleteFile env db workspaceID filePath userID = (Some e, db)"
    with Delete assms show ?thesis by simp
  next
    fix workspace row
    assume "GetWorkspaceByID db (UUIDToPg workspaceID) = Inr workspace"
      "PgToUUID (w_UserID workspace) = userID"
      "GetFile_query db \<lparr>gf_WorkspaceID = UUIDToPg workspaceID, gf_FilePath = filePath\<rparr> = Inr row"
    from DeleteFile_unfold [OF this, of env] Delete assms show ?thesis by simp
  qed
qed

text \<open>
  What a successful upload does leave behind: a version row numbered 1 for the stored
  file, and every version row it adds is numbered 1 and carries the uploaded content;
  under PostgreSQL's treatment of failed blocks it adds exactly that row. After any
  further uploads the history of the file still holds version 1, and if every version
  row was numbered 1 before, every one is afterwards: the number is never raised.
\<close>

lemma successful_upload_has_version_one:
  assumes "UploadFile env s db req userID = (Inr fi, db', started)"
    and "\<forall>op \<in> set ops. is_upload op"
  shows "(\<exists>row. GetFile_query db' \<lparr>gf_WorkspaceID = UUIDToPg (req_WorkspaceID req),
                   gf_FilePath = req_FilePath req\<rparr> = Inr row \<and>
           fi = file_info row \<and>
           (\<exists>v \<in> set (db_file_versions db'). fv_FileID v = f_ID row \<and> fv_VersionNumber v = 1) \<and>
           (\<forall>v \<in> set (db_file_versions db').
              v \<in> set (db_file_versions db) \<or>
              (fv_FileID v = f_ID row \<and> fv_VersionNumber v = 1 \<and>
               fv_ContentHash v = Sprintf_x (sha256_Sum256 env (req_Content req)) \<and>
               fv_Content v = req_Content req)) \<and>
           (pg_aborts_failed_block env \<longrightarrow>
              (\<exists>v. db_file_versions db' = db_file_versions db @ [v] \<and>
                 fv_FileID v = f_ID row \<and> fv_VersionNumber v = 1 \<and>
                 fv_ContentHash v = Sprintf_x (sha256_Sum256 env (req_Content req)) \<and>
                 fv_Content v = req_Content req))) \<and>
         has_version_one (run_operations env s db' ops) (req_WorkspaceID req) (req_FilePath req) \<and>
         ((\<forall>v \<in> set (db_file_versions db). fv_VersionNumber v = 1) \<longrightarrow>
          (\<forall>v \<in> set (db_file_versions (run_operations env s db' ops)). fv_VersionNumber v = 1))"
proof -
  note facts = upload_version_facts [OF assms(1)]
  then have start: "has_version_one db' (req_WorkspaceID req) (req_FilePath req)"
    by (auto simp: has_version_one_def)
  have keep: "has_version_one (run_operations env s d ops) w p"
    if "has_version_one d w p" for d w p
    using that assms(2)
  proof (induction ops arbitrary: d)
    case Nil
    then show ?case by (simp add: run_operations_def)
  next
    case (Cons op ops)
    from Cons.prems(2) obtain r u where op: "op = Upload r u"
      by (cases op) auto
    from upload_keeps_version_one [OF Cons.prems(1), of env s r u] op
    have "has_version_one (apply_operation env s d op) w p" by simp
    from Cons.IH [OF this] Cons.prems(2) show ?case
      by (simp add: run_operations_def)
  qed
  have ones: "\<forall>v \<in> set (db_file_versions (run_operations env s d l)). fv_VersionNumber v = 1"
    if "\<forall>v \<in> set (db_file_versions d). fv_VersionNumber v = 1" for d l
    using that
  proof (induction l arbitrary: d)
    case Nil
    then show ?case by (simp add: run_operations_def)
  next
    case (Cons op l)
    from Cons.IH [OF versions_stay_one [OF Cons.prems, of env s op]] show ?case
      by (simp add: run_operations_def)
  qed
  have "\<forall>v \<in> set (db_file_versions db'). fv_VersionNumber v = 1"
    if "\<forall>v \<in> set (db_file_versions db). fv_VersionNumber v = 1"
    using facts that by blast
  with facts keep [OF start] ones [of db' ops] show ?thesis by blast
qed

lemma successful_upload_has_version_one_example:
  "UploadFile example_env example_svc example_db (example_req ''a.md'' ''X'') 7
     = (Inr (file_info stored_file), stored_db, [stored_file]) \<and>
   list_all is_upload more_uploads \<and>
   pg_aborts_failed_block example_env \<and>
   list_all (\<lambda>v. fv_VersionNumber v = 1) (db_file_versions example_db) \<and>
   (\<exists>v. db_file_versions stored_db = db_file_versions example_db @ [v] \<and>
        fv_FileID v = f_ID stored_file \<and> fv_VersionNumber v = 1 \<and> fv_Content v = ''X'') \<and>
   has_version_one (run_operations example_env example_svc stored_db more_uploads) 1 ''a.md'' \<and>
   list_all (\<lambda>v. fv_VersionNumber v = 1)
     (db_file_versions (run_operations example_env example_svc stored_db more_uploads))"
proof -
  have h: "\<forall>op \<in> set more_uploads. is_upload op"
    by (simp add: more_uploads_def)
  have strict: "pg_aborts_failed_block example_env"
    by (simp add: example_env_def)
  have ones: "\<forall>v \<in> set (db_file_versions example_db). fv_VersionNumber v = 1"
    by (simp add: example_db_def)
  have row: "GetFile_query stored_db \<lparr>gf_WorkspaceID = UUIDToPg 1, gf_FilePath = ''a.md''\<rparr> = Inr stored_file"
    by (simp add: GetFile_query_def same_path_def stored_defs conv_defs)
  from successful_upload_has_version_one [OF upload_example h] strict ones row
  have "(\<exists>v. db_file_versions stored_db = db_file_versions example_db @ [v] \<and>
        fv_FileID v = f_ID stored_file \<and> fv_VersionNumber v = 1 \<and> fv_Content v = ''X'') \<and>
   has_version_one (run_operations example_env example_svc stored_db more_uploads) 1 ''a.md'' \<and>
   (\<forall>v \<in> set (db_file_versions (run_operations example_env example_svc stored_db more_uploads)).
      fv_VersionNumber v = 1)"
    by (auto simp: example_req_def)
  with upload_example h strict ones show ?thesis by (simp add: list_all_iff)
qed










end
